theory Spec2Isabelle
  imports Main "HOL-Library.Word"
begin

section \<open>The embedding-collection descriptor of \<^verbatim>\<open>HugeCTR/embedding/common.hpp\<close>\<close>

subsection \<open>Enumerations\<close>

text \<open>
  \<^verbatim>\<open>enum class Combiner : char { Sum, Average, Concat }\<close> and
  \<^verbatim>\<open>enum class DenseCompressionStrategy : int8_t { Unique, CacheFrequent }\<close> have a fixed
  underlying type, so an object of either type can hold every value of that byte, not only
  the enumerators. The constructor of \<^verbatim>\<open>EmbeddingCollectionParam\<close> has an \<^verbatim>\<open>else\<close> branch
  for exactly those other values; the model therefore keeps the underlying byte and names
  the enumerators by their values.
\<close>

type_synonym Combiner = "8 word"

definition Sum :: Combiner where "Sum = 0"
definition Average :: Combiner where "Average = 1"
definition Concat :: Combiner where "Concat = 2"

type_synonym DenseCompressionStrategy = "8 word"

definition Unique :: DenseCompressionStrategy where "Unique = 0"
definition CacheFrequent :: DenseCompressionStrategy where "CacheFrequent = 1"

datatype TablePlacementStrategy = DataParallel | ModelParallel

datatype EmbeddingType = Sparse | Dense | FrequentDense | InfrequentDense

subsection \<open>Errors\<close>

text \<open>
  Modelled from the spec: the macros \<^verbatim>\<open>HCTR_OWN_THROW\<close> and \<^verbatim>\<open>HCTR_CHECK_HINT\<close> are
  defined in no file of the sources. The spec (sections 4.1 and 7) calls both failures
  fatal errors that end the call. \<^verbatim>\<open>HCTR_OWN_THROW(HugeCTR::Error_t::IllegalCall, msg)\<close>
  is the value \<open>IllegalCall msg\<close>; \<^verbatim>\<open>HCTR_CHECK_HINT(cond, msg)\<close> with a false \<open>cond\<close>
  is the value \<open>CheckFailed msg\<close>.

  An index outside a \<^verbatim>\<open>std::vector\<close> is undefined behaviour in C++; the model stops
  there with \<open>OutOfBounds\<close>, so that no theorem speaks about what an out-of-range read
  returns.
\<close>

datatype error = IllegalCall string | CheckFailed string | OutOfBounds

subsection \<open>Structs\<close>

record LookupParam =
  lookup_id :: int
  table_id :: int
  combiner :: Combiner
  max_hotness :: int
  ev_size :: int

record GroupedTableParam =
  table_placement_strategy :: TablePlacementStrategy
  table_ids :: "int list"

text \<open>
  The field \<^verbatim>\<open>table_placement_strategy\<close> of \<^verbatim>\<open>GroupedLookupParam\<close> is named
  \<open>lookup_placement_strategy\<close> here, since two records of one theory cannot share a
  field name. \<open>grouped_table_idx = -1\<close> means lookup in the local cache.
\<close>

record GroupedLookupParam =
  grouped_table_idx :: int
  lookup_placement_strategy :: TablePlacementStrategy
  lookup_ids :: "int list"
  embedding_type :: EmbeddingType

text \<open>
  The fields of \<^verbatim>\<open>EmbeddingCollectionParam\<close> that its constructor body and its query
  methods read. The data types, layouts and the sort, preprocessing, allreduce and
  communication strategies are copied by the constructor and read by none of the code
  modelled here. \<^verbatim>\<open>dense_compression_strategy_\<close> is written without its last underscore.
\<close>

record EmbeddingCollectionParam =
  num_table :: int
  num_lookup :: int
  lookup_params :: "LookupParam list"
  shard_matrix :: "int list list"
  grouped_table_params :: "GroupedTableParam list"
  grouped_lookup_params :: "GroupedLookupParam list"
  universal_batch_size :: int
  dense_compression_strategy :: DenseCompressionStrategy

subsection \<open>Conversions and \<^verbatim>\<open>std::find\<close>\<close>

text \<open>
  A \<^verbatim>\<open>size_t\<close> (or the \<^verbatim>\<open>ptrdiff_t\<close> of \<^verbatim>\<open>std::distance\<close>) stored into an \<^verbatim>\<open>int\<close> is
  reduced modulo \<open>2 ^ 32\<close> and read as two's complement.
\<close>

definition to_int :: "nat \<Rightarrow> int" where
  "to_int n = (let m = int n mod 2 ^ 32 in if m < 2 ^ 31 then m else m - 2 ^ 32)"

text \<open>
  \<^verbatim>\<open>std::find(first, last, v)\<close> as the distance of the returned iterator from \<open>first\<close>:
  the position of the first element equal to \<open>v\<close>, or the length of the range (the
  iterator \<open>last\<close>) when there is none.
\<close>

fun std_find :: "'a list \<Rightarrow> 'a \<Rightarrow> nat" where
  "std_find [] v = 0"
| "std_find (x # xs) v = (if x = v then 0 else Suc (std_find xs v))"

subsection \<open>The constructor of \<^verbatim>\<open>EmbeddingCollectionParam\<close>\<close>

text \<open>
  The inner loop \<^verbatim>\<open>for (int lookup_id = 0; lookup_id < num_lookup; ++lookup_id)\<close>, run over
  the lookup ids still to visit, with the two vectors \<^verbatim>\<open>sparse_lookup_ids\<close> and
  \<^verbatim>\<open>dense_lookup_ids\<close> built so far. The first argument is \<^verbatim>\<open>lookup_params\<close>, the second
  \<^verbatim>\<open>table_param.table_ids\<close>.
\<close>

fun lookup_loop ::
  "LookupParam list \<Rightarrow> int list \<Rightarrow> nat list \<Rightarrow> int list \<Rightarrow> int list \<Rightarrow> error + (int list \<times> int list)"
where
  "lookup_loop lps tids [] sparse_lookup_ids dense_lookup_ids =
     Inr (sparse_lookup_ids, dense_lookup_ids)"
| "lookup_loop lps tids (l # ls) sparse_lookup_ids dense_lookup_ids =
     (if length lps \<le> l then Inl OutOfBounds
      else if std_find tids (table_id (lps ! l)) = length tids
        then lookup_loop lps tids ls sparse_lookup_ids dense_lookup_ids
      else if combiner (lps ! l) = Concat
        then lookup_loop lps tids ls sparse_lookup_ids (dense_lookup_ids @ [int l])
      else if combiner (lps ! l) = Sum \<or> combiner (lps ! l) = Average
        then lookup_loop lps tids ls (sparse_lookup_ids @ [int l]) dense_lookup_ids
      else Inl (IllegalCall ''combiner not supported in embedding collection.''))"

text \<open>
  The outer loop over \<^verbatim>\<open>grouped_table_params\<close>, from table group \<open>grouped_table_id\<close> on,
  with the vector \<^verbatim>\<open>grouped_lookup_params\<close> built so far (\<^verbatim>\<open>emplace_back\<close> appends). The
  first argument is the value of the member \<^verbatim>\<open>dense_compression_strategy_\<close> that the body
  reads.
\<close>

fun table_group_loop ::
  "DenseCompressionStrategy \<Rightarrow> int \<Rightarrow> LookupParam list \<Rightarrow> GroupedTableParam list \<Rightarrow> nat \<Rightarrow>
   GroupedLookupParam list \<Rightarrow> error + GroupedLookupParam list"
where
  "table_group_loop dcs nl lps [] grouped_table_id glps = Inr glps"
| "table_group_loop dcs nl lps (table_param # rest) grouped_table_id glps =
     (case lookup_loop lps (table_ids table_param) [0..<nat nl] [] [] of
        Inl e \<Rightarrow> Inl e
      | Inr (sparse_lookup_ids, dense_lookup_ids) \<Rightarrow>
          (let glps1 =
                 (if sparse_lookup_ids \<noteq> []
                  then glps @ [\<lparr>grouped_table_idx = to_int grouped_table_id,
                                lookup_placement_strategy = table_placement_strategy table_param,
                                lookup_ids = sparse_lookup_ids,
                                embedding_type = Sparse\<rparr>]
                  else glps)
           in if dense_lookup_ids \<noteq> [] then
                if dcs = Unique then
                  table_group_loop dcs nl lps rest (Suc grouped_table_id)
                    (glps1 @ [\<lparr>grouped_table_idx = to_int grouped_table_id,
                               lookup_placement_strategy = table_placement_strategy table_param,
                               lookup_ids = dense_lookup_ids,
                               embedding_type = Dense\<rparr>])
                else if dcs = CacheFrequent then
                  table_group_loop dcs nl lps rest (Suc grouped_table_id)
                    (glps1 @ [\<lparr>grouped_table_idx = to_int grouped_table_id,
                               lookup_placement_strategy = table_placement_strategy table_param,
                               lookup_ids = dense_lookup_ids,
                               embedding_type = InfrequentDense\<rparr>,
                              \<lparr>grouped_table_idx = - 1,
                               lookup_placement_strategy = table_placement_strategy table_param,
                               lookup_ids = dense_lookup_ids,
                               embedding_type = FrequentDense\<rparr>])
                else Inl (IllegalCall
                  ''dense_compression_strategy not supported in embedding collection.'')
              else table_group_loop dcs nl lps rest (Suc grouped_table_id) glps1))"

text \<open>
  The constructor. It has no parameter for the dense compression strategy: the member
  keeps its default member initializer \<^verbatim>\<open>DenseCompressionStrategy::Unique\<close> while the body
  runs. A throw in the body leaves no object: the result is the error.
\<close>

definition EmbeddingCollectionParam_ctor ::
  "int \<Rightarrow> int \<Rightarrow> LookupParam list \<Rightarrow> int list list \<Rightarrow> GroupedTableParam list \<Rightarrow> int \<Rightarrow>
   error + EmbeddingCollectionParam"
where
  "EmbeddingCollectionParam_ctor ntable nlookup lps sm gtps batch =
     (case table_group_loop Unique nlookup lps gtps 0 [] of
        Inl e \<Rightarrow> Inl e
      | Inr glps \<Rightarrow>
          Inr \<lparr>num_table = ntable, num_lookup = nlookup, lookup_params = lps,
               shard_matrix = sm, grouped_table_params = gtps,
               grouped_lookup_params = glps, universal_batch_size = batch,
               dense_compression_strategy = Unique\<rparr>)"

subsection \<open>The query methods\<close>

definition lookup_id_in_group :: "EmbeddingCollectionParam \<Rightarrow> nat \<Rightarrow> int \<Rightarrow> error + bool" where
  "lookup_id_in_group p grouped_id lid =
     (if length (grouped_lookup_params p) \<le> grouped_id then Inl OutOfBounds
      else let group_param = grouped_lookup_params p ! grouped_id
           in Inr (std_find (lookup_ids group_param) lid \<noteq> length (lookup_ids group_param)))"

definition has_table_shard ::
  "EmbeddingCollectionParam \<Rightarrow> int \<Rightarrow> nat \<Rightarrow> int \<Rightarrow> error + bool" where
  "has_table_shard p gpu_id grouped_id lid =
     (if lid < 0 \<or> length (lookup_params p) \<le> nat lid then Inl OutOfBounds
      else let tid = table_id (lookup_params p ! nat lid)
           in if gpu_id < 0 \<or> length (shard_matrix p) \<le> nat gpu_id then Inl OutOfBounds
              else if tid < 0 \<or> length (shard_matrix p ! nat gpu_id) \<le> nat tid
                then Inl OutOfBounds
              else let has_portion = (shard_matrix p ! nat gpu_id ! nat tid \<noteq> 0)
                   in (case lookup_id_in_group p grouped_id lid of
                         Inl e \<Rightarrow> Inl e
                       | Inr in_group \<Rightarrow> Inr (in_group \<and> has_portion)))"

text \<open>
  The loop of \<^verbatim>\<open>get_table_shard_id\<close> over the rows of the shard matrix, from device
  \<open>ggpu_id\<close> on, with the vector \<^verbatim>\<open>shard_gpus\<close> built so far. \<^verbatim>\<open>push_back(ggpu_id)\<close> stores
  a \<^verbatim>\<open>size_t\<close> into a \<^verbatim>\<open>std::vector<int>\<close>.
\<close>

fun shard_gpus_loop :: "int list list \<Rightarrow> int \<Rightarrow> nat \<Rightarrow> int list \<Rightarrow> error + int list" where
  "shard_gpus_loop [] tid ggpu_id shard_gpus = Inr shard_gpus"
| "shard_gpus_loop (row # rows) tid ggpu_id shard_gpus =
     (if tid < 0 \<or> length row \<le> nat tid then Inl OutOfBounds
      else shard_gpus_loop rows tid (Suc ggpu_id)
             (if row ! nat tid = 1 then shard_gpus @ [to_int ggpu_id] else shard_gpus))"

text \<open>The two output parameters \<^verbatim>\<open>*shard_id\<close> and \<^verbatim>\<open>*num_shard\<close> are the returned pair.\<close>

definition get_table_shard_id ::
  "EmbeddingCollectionParam \<Rightarrow> int \<Rightarrow> int \<Rightarrow> error + (int \<times> int)" where
  "get_table_shard_id p gpu_id tid =
     (case shard_gpus_loop (shard_matrix p) tid 0 [] of
        Inl e \<Rightarrow> Inl e
      | Inr shard_gpus \<Rightarrow>
          (let find_shard_id_iter = std_find shard_gpus gpu_id
           in if find_shard_id_iter = length shard_gpus
              then Inl (CheckFailed ''get_table_shard_id does not find shard id'')
              else Inr (to_int find_shard_id_iter, to_int (length shard_gpus))))"

subsection \<open>\<^verbatim>\<open>WgradAttr\<close>\<close>

text \<open>
  The fields of \<^verbatim>\<open>WgradAttr\<close> that hold table and lookup ids; a tensor of ids is the
  list of its elements. \<^verbatim>\<open>num_table\<close> and \<^verbatim>\<open>num_lookup\<close> are named \<open>wgrad_num_table\<close>
  and \<open>wgrad_num_lookup\<close>, the plain names being fields of \<^verbatim>\<open>EmbeddingCollectionParam\<close>.
\<close>

record WgradAttr =
  wgrad_num_table :: int
  wgrad_num_lookup :: int
  lookup_id_to_table_ids :: "int list"
  sorted_lookup_ids :: "int list"
  sorted_table_ids :: "int list"
  sorted_unique_table_ids :: "int list"

text \<open>
  \<^verbatim>\<open>get_unique_table_ids\<close>, as written in the header:
  \<^verbatim>\<open>(num_table == num_lookup) ? lookup_id_to_table_ids : sorted_unique_table_ids\<close>.
\<close>

definition get_unique_table_ids :: "WgradAttr \<Rightarrow> int list" where
  "get_unique_table_ids a =
     (if wgrad_num_table a = wgrad_num_lookup a then lookup_id_to_table_ids a
      else sorted_unique_table_ids a)"

text \<open>
  Modelled from the spec: \<^verbatim>\<open>WgradAttr::init\<close> is declared in the header and defined in
  no file of the sources. The spec (section 4.3) says that, for a chosen lookup group, it
  builds the lookup-to-table array (index = lookup id within the group), sorts the lookup
  ids and their mapped table ids together by a stable sort, and deduplicates the sorted
  table ids into the unique table ids. \<open>num_lookup\<close> is the number of lookups of the
  group and \<open>num_table\<close> the number of its unique table ids, the reading under which the
  spec calls the per-lookup mapping "trivially unique" when the two are equal.
\<close>

definition WgradAttr_init :: "EmbeddingCollectionParam \<Rightarrow> nat \<Rightarrow> error + WgradAttr" where
  "WgradAttr_init p grouped_id =
     (if length (grouped_lookup_params p) \<le> grouped_id then Inl OutOfBounds
      else let ids = lookup_ids (grouped_lookup_params p ! grouped_id)
           in if \<exists>lid \<in> set ids. lid < 0 \<or> length (lookup_params p) \<le> nat lid
              then Inl OutOfBounds
              else let tables = map (\<lambda>lid. table_id (lookup_params p ! nat lid)) ids;
                       sorted_pairs = sort_key snd (zip ids tables);
                       unique_tables = remdups_adj (map snd sorted_pairs)
                   in Inr \<lparr>wgrad_num_table = int (length unique_tables),
                            wgrad_num_lookup = int (length ids),
                            lookup_id_to_table_ids = tables,
                            sorted_lookup_ids = map fst sorted_pairs,
                            sorted_table_ids = map snd sorted_pairs,
                            sorted_unique_table_ids = unique_tables\<rparr>)"

section \<open>Functions for the statements and the proofs\<close>

text \<open>
  None of the functions of this section translates a function of the source. They are
  closed forms of what the loops compute (proved equal to the loops below, in
  \<open>lookup_loop_eq\<close>, \<open>table_group_loop_accepts\<close> and \<open>shard_gpus_loop_matrix\<close>) and
  the notions that the claims speak of.
\<close>

subsection \<open>What the two loops of the constructor compute\<close>

text \<open>
  The lookup ids among \<open>ls\<close> whose table is one of \<open>tids\<close>, split by combiner as the
  inner loop does: \<open>Concat\<close> is dense, every other accepted combiner is sparse.
\<close>

definition sparse_ids :: "LookupParam list \<Rightarrow> int list \<Rightarrow> nat list \<Rightarrow> int list" where
  "sparse_ids lps tids ls =
     map int (filter (\<lambda>l. table_id (lps ! l) \<in> set tids \<and> combiner (lps ! l) \<noteq> Concat) ls)"

definition dense_ids :: "LookupParam list \<Rightarrow> int list \<Rightarrow> nat list \<Rightarrow> int list" where
  "dense_ids lps tids ls =
     map int (filter (\<lambda>l. table_id (lps ! l) \<in> set tids \<and> combiner (lps ! l) = Concat) ls)"

text \<open>Some lookup among \<open>ls\<close> has its table in \<open>tids\<close> and a combiner that is none of the three.\<close>

definition unsupported_in :: "LookupParam list \<Rightarrow> int list \<Rightarrow> nat list \<Rightarrow> bool" where
  "unsupported_in lps tids ls \<longleftrightarrow>
     (\<exists>l \<in> set ls. table_id (lps ! l) \<in> set tids \<and>
        combiner (lps ! l) \<noteq> Sum \<and> combiner (lps ! l) \<noteq> Average \<and> combiner (lps ! l) \<noteq> Concat)"

text \<open>
  The table group \<open>tp\<close> makes the constructor body throw under the strategy \<open>dcs\<close>.
\<close>

definition rejects ::
  "DenseCompressionStrategy \<Rightarrow> int \<Rightarrow> LookupParam list \<Rightarrow> GroupedTableParam \<Rightarrow> bool" where
  "rejects dcs nl lps tp \<longleftrightarrow>
     unsupported_in lps (table_ids tp) [0..<nat nl] \<or>
     (dense_ids lps (table_ids tp) [0..<nat nl] \<noteq> [] \<and> dcs \<noteq> Unique \<and> dcs \<noteq> CacheFrequent)"

text \<open>The lookup groups that the body appends for table group \<open>tp\<close> at index \<open>i\<close>.\<close>

definition emitted_groups ::
  "DenseCompressionStrategy \<Rightarrow> int \<Rightarrow> LookupParam list \<Rightarrow> GroupedTableParam \<Rightarrow> nat \<Rightarrow>
   GroupedLookupParam list" where
  "emitted_groups dcs nl lps tp i =
     (let sp = sparse_ids lps (table_ids tp) [0..<nat nl];
          de = dense_ids lps (table_ids tp) [0..<nat nl];
          grp = (\<lambda>idx ids ty. \<lparr>grouped_table_idx = idx,
                   lookup_placement_strategy = table_placement_strategy tp,
                   lookup_ids = ids, embedding_type = ty\<rparr>)
      in (if sp \<noteq> [] then [grp (to_int i) sp Sparse] else []) @
         (if de = [] then []
          else if dcs = Unique then [grp (to_int i) de Dense]
          else [grp (to_int i) de InfrequentDense, grp (- 1) de FrequentDense]))"

fun groups_from ::
  "DenseCompressionStrategy \<Rightarrow> int \<Rightarrow> LookupParam list \<Rightarrow> GroupedTableParam list \<Rightarrow> nat \<Rightarrow>
   GroupedLookupParam list" where
  "groups_from dcs nl lps [] i = []"
| "groups_from dcs nl lps (tp # rest) i =
     emitted_groups dcs nl lps tp i @ groups_from dcs nl lps rest (Suc i)"

text \<open>
  The condition of the spec for a fatal configuration error: some lookup whose table
  belongs to a table group uses a combiner other than \<open>Sum\<close>, \<open>Average\<close> or \<open>Concat\<close>, or
  a dense (\<open>Concat\<close>) lookup of a table group exists while the strategy is neither
  \<open>Unique\<close> nor \<open>CacheFrequent\<close>.
\<close>

definition fatal_configuration ::
  "DenseCompressionStrategy \<Rightarrow> int \<Rightarrow> LookupParam list \<Rightarrow> GroupedTableParam list \<Rightarrow> bool" where
  "fatal_configuration dcs nl lps gtps \<longleftrightarrow>
     (\<exists>tp \<in> set gtps. \<exists>l \<in> set [0..<nat nl].
        table_id (lps ! l) \<in> set (table_ids tp) \<and>
        ((combiner (lps ! l) \<noteq> Sum \<and> combiner (lps ! l) \<noteq> Average \<and>
          combiner (lps ! l) \<noteq> Concat) \<or>
         (combiner (lps ! l) = Concat \<and> dcs \<noteq> Unique \<and> dcs \<noteq> CacheFrequent)))"

subsection \<open>Counting groups\<close>

text \<open>
  The number of lookup groups that list the lookup id \<open>lid\<close>, and the number of table
  groups that list the table id \<open>tid\<close>.
\<close>

definition num_groups_with_lookup :: "int \<Rightarrow> GroupedLookupParam list \<Rightarrow> nat" where
  "num_groups_with_lookup lid glps = length (filter (\<lambda>g. lid \<in> set (lookup_ids g)) glps)"

definition num_table_groups_with_table :: "int \<Rightarrow> GroupedTableParam list \<Rightarrow> nat" where
  "num_table_groups_with_table tid gtps = length (filter (\<lambda>tp. tid \<in> set (table_ids tp)) gtps)"

subsection \<open>Devices of a table\<close>

text \<open>
  The table id \<open>tid\<close> indexes every row of the shard matrix \<open>sm\<close>.
\<close>

definition table_in_rows :: "int list list \<Rightarrow> int \<Rightarrow> bool" where
  "table_in_rows sm tid \<longleftrightarrow> 0 \<le> tid \<and> (\<forall>row \<in> set sm. nat tid < length row)"

text \<open>
  The device indices, in ascending order, whose entry for table \<open>tid\<close> is 1: the test of
  \<^verbatim>\<open>get_table_shard_id\<close>. Then those whose entry is not 0: the test of
  \<^verbatim>\<open>has_table_shard\<close>.
\<close>

definition shard_devices :: "int list list \<Rightarrow> int \<Rightarrow> nat list" where
  "shard_devices sm tid = filter (\<lambda>g. sm ! g ! nat tid = 1) [0..<length sm]"

definition devices_with_portion :: "int list list \<Rightarrow> int \<Rightarrow> nat list" where
  "devices_with_portion sm tid = filter (\<lambda>g. sm ! g ! nat tid \<noteq> 0) [0..<length sm]"

text \<open>
  The shard matrix of the spec is boolean. In the column of table \<open>tid\<close> of \<open>sm\<close> every
  entry is 0 or 1.
\<close>

definition boolean_column :: "int list list \<Rightarrow> int \<Rightarrow> bool" where
  "boolean_column sm tid \<longleftrightarrow> (\<forall>row \<in> set sm. row ! nat tid = 0 \<or> row ! nat tid = 1)"

section \<open>Example configurations\<close>

text \<open>
  Three tables in one model-parallel table group, two \<open>Concat\<close> lookups and one \<open>Sum\<close>
  lookup, two devices. \<open>scenario_param\<close> is the descriptor the constructor builds from
  them; \<open>scenario_cache_frequent_groups\<close> are the groups the spec expects under
  \<open>CacheFrequent\<close>.
\<close>

definition scenario_lookups :: "LookupParam list" where
  "scenario_lookups =
     [\<lparr>lookup_id = 0, table_id = 0, combiner = Concat, max_hotness = 1, ev_size = 8\<rparr>,
      \<lparr>lookup_id = 1, table_id = 1, combiner = Concat, max_hotness = 1, ev_size = 8\<rparr>,
      \<lparr>lookup_id = 2, table_id = 2, combiner = Sum, max_hotness = 3, ev_size = 16\<rparr>]"

definition scenario_table_groups :: "GroupedTableParam list" where
  "scenario_table_groups =
     [\<lparr>table_placement_strategy = ModelParallel, table_ids = [0, 1, 2]\<rparr>]"

definition scenario_shard_matrix :: "int list list" where
  "scenario_shard_matrix = [[1, 0, 1], [1, 1, 0]]"

definition scenario_param :: EmbeddingCollectionParam where
  "scenario_param =
     \<lparr>num_table = 3, num_lookup = 3, lookup_params = scenario_lookups,
      shard_matrix = scenario_shard_matrix, grouped_table_params = scenario_table_groups,
      grouped_lookup_params =
        [\<lparr>grouped_table_idx = 0, lookup_placement_strategy = ModelParallel,
          lookup_ids = [2], embedding_type = Sparse\<rparr>,
         \<lparr>grouped_table_idx = 0, lookup_placement_strategy = ModelParallel,
          lookup_ids = [0, 1], embedding_type = Dense\<rparr>],
      universal_batch_size = 8, dense_compression_strategy = Unique\<rparr>"


text \<open>Two lookups; the table of the second one is in no table group.\<close>

definition ungrouped_lookups :: "LookupParam list" where
  "ungrouped_lookups =
     [\<lparr>lookup_id = 0, table_id = 0, combiner = Sum, max_hotness = 2, ev_size = 8\<rparr>,
      \<lparr>lookup_id = 1, table_id = 1, combiner = Concat, max_hotness = 1, ev_size = 8\<rparr>]"

definition ungrouped_table_groups :: "GroupedTableParam list" where
  "ungrouped_table_groups = [\<lparr>table_placement_strategy = DataParallel, table_ids = [0]\<rparr>]"

definition ungrouped_param :: EmbeddingCollectionParam where
  "ungrouped_param =
     \<lparr>num_table = 2, num_lookup = 2, lookup_params = ungrouped_lookups,
      shard_matrix = [[1, 1]], grouped_table_params = ungrouped_table_groups,
      grouped_lookup_params =
        [\<lparr>grouped_table_idx = 0, lookup_placement_strategy = DataParallel,
          lookup_ids = [0], embedding_type = Sparse\<rparr>],
      universal_batch_size = 8, dense_compression_strategy = Unique\<rparr>"

text \<open>Two table groups; no lookup refers to the table of the second one.\<close>

definition unreferenced_lookups :: "LookupParam list" where
  "unreferenced_lookups =
     [\<lparr>lookup_id = 0, table_id = 0, combiner = Sum, max_hotness = 2, ev_size = 8\<rparr>]"

definition unreferenced_table_groups :: "GroupedTableParam list" where
  "unreferenced_table_groups =
     [\<lparr>table_placement_strategy = DataParallel, table_ids = [0]\<rparr>,
      \<lparr>table_placement_strategy = ModelParallel, table_ids = [1]\<rparr>]"

definition unreferenced_param :: EmbeddingCollectionParam where
  "unreferenced_param =
     \<lparr>num_table = 2, num_lookup = 1, lookup_params = unreferenced_lookups,
      shard_matrix = [[1, 1]], grouped_table_params = unreferenced_table_groups,
      grouped_lookup_params =
        [\<lparr>grouped_table_idx = 0, lookup_placement_strategy = DataParallel,
          lookup_ids = [0], embedding_type = Sparse\<rparr>],
      universal_batch_size = 8, dense_compression_strategy = Unique\<rparr>"

text \<open>
  One table, two lookups on it, two devices; the entry of device 0 in the shard matrix is
  2, that of device 1 is 1.
\<close>

definition nonunit_lookups :: "LookupParam list" where
  "nonunit_lookups =
     [\<lparr>lookup_id = 0, table_id = 0, combiner = Sum, max_hotness = 2, ev_size = 8\<rparr>,
      \<lparr>lookup_id = 1, table_id = 0, combiner = Average, max_hotness = 4, ev_size = 8\<rparr>]"

definition nonunit_table_groups :: "GroupedTableParam list" where
  "nonunit_table_groups = [\<lparr>table_placement_strategy = ModelParallel, table_ids = [0]\<rparr>]"

definition nonunit_param :: EmbeddingCollectionParam where
  "nonunit_param =
     \<lparr>num_table = 1, num_lookup = 2, lookup_params = nonunit_lookups,
      shard_matrix = [[2], [1]], grouped_table_params = nonunit_table_groups,
      grouped_lookup_params =
        [\<lparr>grouped_table_idx = 0, lookup_placement_strategy = ModelParallel,
          lookup_ids = [0, 1], embedding_type = Sparse\<rparr>],
      universal_batch_size = 8, dense_compression_strategy = Unique\<rparr>"

text \<open>A lookup whose combiner byte is none of the three enumerators.\<close>

definition unsupported_lookups :: "LookupParam list" where
  "unsupported_lookups =
     [\<lparr>lookup_id = 0, table_id = 0, combiner = 7, max_hotness = 2, ev_size = 8\<rparr>]"

text \<open>
  The attributes that \<open>WgradAttr_init\<close> gives for the dense group of \<open>scenario_param\<close>
  and for the only group of \<open>nonunit_param\<close>.
\<close>

definition scenario_dense_attr :: WgradAttr where
  "scenario_dense_attr =
     \<lparr>wgrad_num_table = 2, wgrad_num_lookup = 2, lookup_id_to_table_ids = [0, 1],
      sorted_lookup_ids = [0, 1], sorted_table_ids = [0, 1], sorted_unique_table_ids = [0, 1]\<rparr>"

definition nonunit_attr :: WgradAttr where
  "nonunit_attr =
     \<lparr>wgrad_num_table = 1, wgrad_num_lookup = 2, lookup_id_to_table_ids = [0, 0],
      sorted_lookup_ids = [0, 1], sorted_table_ids = [0, 0], sorted_unique_table_ids = [0]\<rparr>"

section \<open>Facts about the helpers\<close>

lemmas enum_defs = Sum_def Average_def Concat_def Unique_def CacheFrequent_def

lemma std_find_le: "std_find xs v \<le> length xs"
  by (induction xs) auto

lemma std_find_end_iff: "std_find xs v = length xs \<longleftrightarrow> v \<notin> set xs"
proof (induction xs)
  case Nil
  show ?case by simp
next
  case (Cons x xs)
  have "std_find xs v \<le> length xs" by (rule std_find_le)
  with Cons show ?case by auto
qed

lemma std_find_index: "distinct xs \<Longrightarrow> i < length xs \<Longrightarrow> std_find xs (xs ! i) = i"
proof (induction xs arbitrary: i)
  case Nil
  then show ?case by simp
next
  case (Cons x xs)
  show ?case
  proof (cases i)
    case 0
    then show ?thesis by simp
  next
    case (Suc j)
    with Cons.prems have "j < length xs" and "xs ! j \<in> set xs" and "x \<notin> set xs" by auto
    with Cons Suc show ?thesis by auto
  qed
qed

lemma to_int_small: "n < 2 ^ 31 \<Longrightarrow> to_int n = int n"
proof -
  assume "n < 2 ^ 31"
  then have "int n < 2 ^ 31" by (metis of_nat_less_iff of_nat_numeral of_nat_power)
  then show "to_int n = int n" by (simp add: to_int_def Let_def)
qed

subsection \<open>The inner loop\<close>

lemma sparse_ids_Nil: "sparse_ids lps tids [] = []"
  by (simp add: sparse_ids_def)

lemma dense_ids_Nil: "dense_ids lps tids [] = []"
  by (simp add: dense_ids_def)

lemma unsupported_in_Nil: "\<not> unsupported_in lps tids []"
  by (simp add: unsupported_in_def)

lemma sparse_ids_Cons:
  "sparse_ids lps tids (l # ls) =
     (if table_id (lps ! l) \<in> set tids \<and> combiner (lps ! l) \<noteq> Concat then [int l] else []) @
     sparse_ids lps tids ls"
  by (simp add: sparse_ids_def)

lemma dense_ids_Cons:
  "dense_ids lps tids (l # ls) =
     (if table_id (lps ! l) \<in> set tids \<and> combiner (lps ! l) = Concat then [int l] else []) @
     dense_ids lps tids ls"
  by (simp add: dense_ids_def)

lemma unsupported_in_Cons:
  "unsupported_in lps tids (l # ls) \<longleftrightarrow>
     (table_id (lps ! l) \<in> set tids \<and>
        combiner (lps ! l) \<noteq> Sum \<and> combiner (lps ! l) \<noteq> Average \<and> combiner (lps ! l) \<noteq> Concat) \<or>
     unsupported_in lps tids ls"
  by (simp add: unsupported_in_def)

lemma lookup_loop_eq:
  "\<forall>l \<in> set ls. l < length lps \<Longrightarrow>
   lookup_loop lps tids ls sp de =
     (if unsupported_in lps tids ls
      then Inl (IllegalCall ''combiner not supported in embedding collection.'')
      else Inr (sp @ sparse_ids lps tids ls, de @ dense_ids lps tids ls))"
proof (induction ls arbitrary: sp de)
  case Nil
  show ?case by (simp add: unsupported_in_Nil sparse_ids_Nil dense_ids_Nil)
next
  case (Cons l ls)
  then have IH: "\<And>sp de. lookup_loop lps tids ls sp de =
     (if unsupported_in lps tids ls
      then Inl (IllegalCall ''combiner not supported in embedding collection.'')
      else Inr (sp @ sparse_ids lps tids ls, de @ dense_ids lps tids ls))"
    and l: "l < length lps" by simp_all
  have ne: "Concat \<noteq> Sum" "Concat \<noteq> Average" by (simp_all add: enum_defs)
  show ?case
  proof (cases "table_id (lps ! l) \<in> set tids")
    case False
    with l show ?thesis
      by (simp add: IH std_find_end_iff unsupported_in_Cons sparse_ids_Cons dense_ids_Cons)
  next
    case True
    with l ne show ?thesis
      by (simp add: IH std_find_end_iff unsupported_in_Cons sparse_ids_Cons dense_ids_Cons)
  qed
qed

subsection \<open>The outer loop\<close>

lemma lookup_loop_upt:
  assumes "nat nl \<le> length lps"
  shows "lookup_loop lps tids [0..<nat nl] [] [] =
     (if unsupported_in lps tids [0..<nat nl]
      then Inl (IllegalCall ''combiner not supported in embedding collection.'')
      else Inr (sparse_ids lps tids [0..<nat nl], dense_ids lps tids [0..<nat nl]))"
proof -
  from assms have "\<forall>l \<in> set [0..<nat nl]. l < length lps" by simp
  from lookup_loop_eq [OF this] show ?thesis by simp
qed

lemma Unique_neq_CacheFrequent: "Unique \<noteq> CacheFrequent"
  by (simp add: enum_defs)

lemma table_group_loop_step:
  assumes "nat nl \<le> length lps"
  shows "table_group_loop dcs nl lps (tp # rest) i glps =
     (if unsupported_in lps (table_ids tp) [0..<nat nl]
      then Inl (IllegalCall ''combiner not supported in embedding collection.'')
      else if dense_ids lps (table_ids tp) [0..<nat nl] \<noteq> [] \<and> dcs \<noteq> Unique \<and> dcs \<noteq> CacheFrequent
      then Inl (IllegalCall ''dense_compression_strategy not supported in embedding collection.'')
      else table_group_loop dcs nl lps rest (Suc i) (glps @ emitted_groups dcs nl lps tp i))"
  using Unique_neq_CacheFrequent
  by (auto simp add: lookup_loop_upt [OF assms] emitted_groups_def Let_def)

lemma table_group_loop_accepts:
  assumes "nat nl \<le> length lps"
  shows "\<forall>tp \<in> set tps. \<not> rejects dcs nl lps tp \<Longrightarrow>
         table_group_loop dcs nl lps tps i glps = Inr (glps @ groups_from dcs nl lps tps i)"
proof (induction tps arbitrary: i glps)
  case Nil
  show ?case by simp
next
  case (Cons tp rest)
  then have ok: "\<not> rejects dcs nl lps tp"
    and IH: "\<And>i glps. table_group_loop dcs nl lps rest i glps =
               Inr (glps @ groups_from dcs nl lps rest i)" by simp_all
  from ok have "table_group_loop dcs nl lps (tp # rest) i glps =
      table_group_loop dcs nl lps rest (Suc i) (glps @ emitted_groups dcs nl lps tp i)"
    unfolding table_group_loop_step [OF assms] rejects_def by auto
  then show ?case by (simp add: IH)
qed

lemma table_group_loop_rejects:
  assumes "nat nl \<le> length lps"
  shows "\<exists>tp \<in> set tps. rejects dcs nl lps tp \<Longrightarrow>
         \<exists>msg. table_group_loop dcs nl lps tps i glps = Inl (IllegalCall msg)"
proof (induction tps arbitrary: i glps)
  case Nil
  then show ?case by simp
next
  case (Cons tp rest)
  show ?case
  proof (cases "rejects dcs nl lps tp")
    case True
    then show ?thesis
      unfolding table_group_loop_step [OF assms] rejects_def by auto
  next
    case False
    with Cons.prems have "\<exists>tp \<in> set rest. rejects dcs nl lps tp" by simp
    from Cons.IH [OF this]
    have IH: "\<exists>msg. table_group_loop dcs nl lps rest (Suc i) (glps @ emitted_groups dcs nl lps tp i)
                = Inl (IllegalCall msg)" .
    from False have "table_group_loop dcs nl lps (tp # rest) i glps =
      table_group_loop dcs nl lps rest (Suc i) (glps @ emitted_groups dcs nl lps tp i)"
      unfolding table_group_loop_step [OF assms] rejects_def by auto
    with IH show ?thesis by simp
  qed
qed

subsection \<open>The produced groups\<close>

lemma in_sparse_ids:
  "lid \<in> set (sparse_ids lps tids [0..<n]) \<longleftrightarrow>
     0 \<le> lid \<and> nat lid < n \<and> table_id (lps ! nat lid) \<in> set tids \<and> combiner (lps ! nat lid) \<noteq> Concat"
  by (auto simp add: sparse_ids_def intro!: image_eqI [where x = "nat lid"])

lemma in_dense_ids:
  "lid \<in> set (dense_ids lps tids [0..<n]) \<longleftrightarrow>
     0 \<le> lid \<and> nat lid < n \<and> table_id (lps ! nat lid) \<in> set tids \<and> combiner (lps ! nat lid) = Concat"
  by (auto simp add: dense_ids_def intro!: image_eqI [where x = "nat lid"])

lemma distinct_sparse_ids: "distinct (sparse_ids lps tids [0..<n])"
  by (simp add: sparse_ids_def distinct_map)

lemma distinct_dense_ids: "distinct (dense_ids lps tids [0..<n])"
  by (simp add: dense_ids_def distinct_map)

lemma num_groups_with_lookup_append:
  "num_groups_with_lookup lid (xs @ ys) = num_groups_with_lookup lid xs + num_groups_with_lookup lid ys"
  by (simp add: num_groups_with_lookup_def)

lemma num_groups_with_lookup_emitted:
  "num_groups_with_lookup lid (emitted_groups Unique nl lps tp i) =
     (if 0 \<le> lid \<and> nat lid < nat nl \<and> table_id (lps ! nat lid) \<in> set (table_ids tp) then 1 else 0)"
proof -
  let ?sp = "sparse_ids lps (table_ids tp) [0..<nat nl]"
  let ?de = "dense_ids lps (table_ids tp) [0..<nat nl]"
  have "num_groups_with_lookup lid (emitted_groups Unique nl lps tp i) =
          (if lid \<in> set ?sp then 1 else 0) + (if lid \<in> set ?de then 1 else 0)"
    by (auto simp add: num_groups_with_lookup_def emitted_groups_def Let_def)
  then show ?thesis
    by (auto simp add: in_sparse_ids in_dense_ids)
qed

lemma num_groups_with_lookup_groups_from:
  "num_groups_with_lookup lid (groups_from Unique nl lps tps i) =
     (if 0 \<le> lid \<and> nat lid < nat nl
      then num_table_groups_with_table (table_id (lps ! nat lid)) tps else 0)"
proof (induction tps arbitrary: i)
  case Nil
  show ?case by (simp add: num_groups_with_lookup_def num_table_groups_with_table_def)
next
  case (Cons tp rest)
  have "num_table_groups_with_table t (tp # rest) =
          (if t \<in> set (table_ids tp) then 1 else 0) + num_table_groups_with_table t rest" for t
    by (simp add: num_table_groups_with_table_def)
  then show ?case
    by (simp add: num_groups_with_lookup_append num_groups_with_lookup_emitted Cons.IH)
qed

lemma emitted_groups_props:
  assumes "g \<in> set (emitted_groups dcs nl lps tp i)"
  shows "lookup_ids g \<noteq> [] \<and> distinct (lookup_ids g) \<and>
         (\<forall>lid \<in> set (lookup_ids g). 0 \<le> lid \<and> nat lid < nat nl \<and>
             table_id (lps ! nat lid) \<in> set (table_ids tp)) \<and>
         (grouped_table_idx g = to_int i \<or> (dcs \<noteq> Unique \<and> grouped_table_idx g = - 1))"
  using assms
  by (auto simp add: emitted_groups_def Let_def in_sparse_ids in_dense_ids
        distinct_sparse_ids distinct_dense_ids split: if_splits)

lemma groups_from_props:
  "g \<in> set (groups_from dcs nl lps tps i) \<Longrightarrow>
     \<exists>j < length tps. g \<in> set (emitted_groups dcs nl lps (tps ! j) (i + j))"
proof (induction tps arbitrary: i)
  case Nil
  then show ?case by simp
next
  case (Cons tp rest)
  show ?case
  proof (cases "g \<in> set (emitted_groups dcs nl lps tp i)")
    case True
    then have "g \<in> set (emitted_groups dcs nl lps ((tp # rest) ! 0) (i + 0))" by simp
    then show ?thesis by blast
  next
    case False
    with Cons.prems have "g \<in> set (groups_from dcs nl lps rest (Suc i))" by simp
    from Cons.IH [OF this] obtain j where "j < length rest"
      and "g \<in> set (emitted_groups dcs nl lps (rest ! j) (Suc i + j))" by blast
    then have "Suc j < length (tp # rest)"
      and "g \<in> set (emitted_groups dcs nl lps ((tp # rest) ! Suc j) (i + Suc j))" by simp_all
    then show ?thesis by blast
  qed
qed

lemma sparse_ids_update:
  assumes "table_id (lps ! l) \<notin> set tids" and "table_id x = table_id (lps ! l)"
  shows "sparse_ids (lps[l := x]) tids ls = sparse_ids lps tids ls"
proof -
  have "(table_id (lps[l := x] ! k) \<in> set tids \<and> combiner (lps[l := x] ! k) \<noteq> Concat) =
        (table_id (lps ! k) \<in> set tids \<and> combiner (lps ! k) \<noteq> Concat)" for k
    using assms by (cases "k = l"; cases "l < length lps") (simp_all add: list_update_beyond)
  then show ?thesis by (simp add: sparse_ids_def)
qed

lemma dense_ids_update:
  assumes "table_id (lps ! l) \<notin> set tids" and "table_id x = table_id (lps ! l)"
  shows "dense_ids (lps[l := x]) tids ls = dense_ids lps tids ls"
proof -
  have "(table_id (lps[l := x] ! k) \<in> set tids \<and> combiner (lps[l := x] ! k) = Concat) =
        (table_id (lps ! k) \<in> set tids \<and> combiner (lps ! k) = Concat)" for k
    using assms by (cases "k = l"; cases "l < length lps") (simp_all add: list_update_beyond)
  then show ?thesis by (simp add: dense_ids_def)
qed

lemma unsupported_in_update:
  assumes "table_id (lps ! l) \<notin> set tids" and "table_id x = table_id (lps ! l)"
  shows "unsupported_in (lps[l := x]) tids ls = unsupported_in lps tids ls"
proof -
  have "(table_id (lps[l := x] ! k) \<in> set tids \<and> combiner (lps[l := x] ! k) \<noteq> Sum \<and>
          combiner (lps[l := x] ! k) \<noteq> Average \<and> combiner (lps[l := x] ! k) \<noteq> Concat) =
        (table_id (lps ! k) \<in> set tids \<and> combiner (lps ! k) \<noteq> Sum \<and>
          combiner (lps ! k) \<noteq> Average \<and> combiner (lps ! k) \<noteq> Concat)" for k
    using assms by (cases "k = l"; cases "l < length lps") (simp_all add: list_update_beyond)
  then show ?thesis by (simp add: unsupported_in_def)
qed

lemma table_group_loop_update:
  assumes len: "nat nl \<le> length lps"
    and eq: "table_id x = table_id (lps ! l)"
  shows "\<forall>tp \<in> set tps. table_id (lps ! l) \<notin> set (table_ids tp) \<Longrightarrow>
         table_group_loop dcs nl (lps[l := x]) tps i glps = table_group_loop dcs nl lps tps i glps"
proof (induction tps arbitrary: i glps)
  case Nil
  show ?case by simp
next
  case (Cons tp rest)
  then have notin: "table_id (lps ! l) \<notin> set (table_ids tp)"
    and IH: "\<And>i glps. table_group_loop dcs nl (lps[l := x]) rest i glps =
                        table_group_loop dcs nl lps rest i glps" by simp_all
  from len have len': "nat nl \<le> length (lps[l := x])" by simp
  have e: "emitted_groups dcs nl (lps[l := x]) tp i = emitted_groups dcs nl lps tp i"
    by (simp add: emitted_groups_def sparse_ids_update [OF notin eq] dense_ids_update [OF notin eq])
  show ?case
    by (simp only: table_group_loop_step [OF len] table_group_loop_step [OF len'] IH e
          dense_ids_update [OF notin eq] unsupported_in_update [OF notin eq])
qed

subsection \<open>The shard list\<close>

lemma shard_gpus_loop_eq:
  assumes "0 \<le> tid"
  shows "\<forall>row \<in> set rows. nat tid < length row \<Longrightarrow>
     shard_gpus_loop rows tid g acc =
       Inr (acc @ map to_int (filter (\<lambda>k. rows ! (k - g) ! nat tid = 1) [g..<g + length rows]))"
proof (induction rows arbitrary: g acc)
  case Nil
  show ?case by simp
next
  case (Cons row rows)
  then have row: "nat tid < length row"
    and IH: "\<And>g acc. shard_gpus_loop rows tid g acc =
       Inr (acc @ map to_int (filter (\<lambda>k. rows ! (k - g) ! nat tid = 1) [g..<g + length rows]))"
    by simp_all
  have upt: "[g..<Suc (g + length rows)] = g # [Suc g..<Suc (g + length rows)]"
    by (rule upt_conv_Cons) simp
  have shift: "filter (\<lambda>k. (row # rows) ! (k - g) ! nat tid = 1) [Suc g..<Suc (g + length rows)] =
               filter (\<lambda>k. rows ! (k - Suc g) ! nat tid = 1) [Suc g..<Suc (g + length rows)]"
  proof (rule filter_cong [OF refl])
    fix k assume "k \<in> set [Suc g..<Suc (g + length rows)]"
    then have "k - g = Suc (k - Suc g)" by auto
    then show "((row # rows) ! (k - g) ! nat tid = 1) = (rows ! (k - Suc g) ! nat tid = 1)"
      by simp
  qed
  have rhs: "filter (\<lambda>k. (row # rows) ! (k - g) ! nat tid = 1) [g..<Suc (g + length rows)] =
             (if row ! nat tid = 1 then [g] else []) @
             filter (\<lambda>k. rows ! (k - Suc g) ! nat tid = 1) [Suc g..<Suc (g + length rows)]"
    by (subst upt) (simp add: shift del: upt_Suc)
  from assms row show ?case
    by (simp add: IH rhs del: upt_Suc)
qed

lemma shard_gpus_loop_matrix:
  assumes "table_in_rows sm tid"
  shows "shard_gpus_loop sm tid 0 [] = Inr (map to_int (shard_devices sm tid))"
  using assms shard_gpus_loop_eq [of tid sm 0 "[]"]
  by (simp add: table_in_rows_def shard_devices_def)

lemma shard_devices_bound: "g \<in> set (shard_devices sm tid) \<Longrightarrow> g < length sm"
  by (simp add: shard_devices_def)

lemma map_to_int_shard_devices:
  assumes "length sm < 2 ^ 31"
  shows "map to_int (shard_devices sm tid) = map int (shard_devices sm tid)"
proof (rule map_cong [OF refl])
  fix g assume "g \<in> set (shard_devices sm tid)"
  then have "g < length sm" by (rule shard_devices_bound)
  with assms have "g < 2 ^ 31" by simp
  then show "to_int g = int g" by (rule to_int_small)
qed

lemma distinct_shard_devices: "distinct (shard_devices sm tid)"
  by (simp add: shard_devices_def)

lemma sorted_shard_devices: "sorted_wrt (<) (shard_devices sm tid)"
  by (simp add: shard_devices_def sorted_wrt_filter)

lemma in_shard_devices:
  "gpu_id \<in> set (map int (shard_devices sm tid)) \<longleftrightarrow>
     0 \<le> gpu_id \<and> nat gpu_id < length sm \<and> sm ! nat gpu_id ! nat tid = 1"
  by (auto simp add: shard_devices_def intro!: image_eqI [where x = "nat gpu_id"])

lemma length_shard_devices: "length (shard_devices sm tid) \<le> length sm"
proof -
  have "length (shard_devices sm tid) \<le> length [0..<length sm]"
    unfolding shard_devices_def by (rule length_filter_le)
  then show ?thesis by simp
qed

lemma get_table_shard_id_eq:
  assumes "table_in_rows (shard_matrix p) tid" and "length (shard_matrix p) < 2 ^ 31"
  shows "get_table_shard_id p gpu_id tid =
     (if 0 \<le> gpu_id \<and> nat gpu_id < length (shard_matrix p) \<and>
         shard_matrix p ! nat gpu_id ! nat tid = 1
      then Inr (int (std_find (map int (shard_devices (shard_matrix p) tid)) gpu_id),
                int (length (shard_devices (shard_matrix p) tid)))
      else Inl (CheckFailed ''get_table_shard_id does not find shard id''))"
proof -
  let ?L = "map int (shard_devices (shard_matrix p) tid)"
  have loop: "shard_gpus_loop (shard_matrix p) tid 0 [] = Inr ?L"
    using shard_gpus_loop_matrix [OF assms(1)] map_to_int_shard_devices [OF assms(2)] by simp
  have len: "length ?L < 2 ^ 31"
    using length_shard_devices [of "shard_matrix p" tid] assms(2) by simp
  have "std_find ?L gpu_id \<le> length ?L" by (rule std_find_le)
  with len have pos: "std_find ?L gpu_id < 2 ^ 31" by simp
  have mem: "(std_find ?L gpu_id = length ?L) \<longleftrightarrow>
     \<not> (0 \<le> gpu_id \<and> nat gpu_id < length (shard_matrix p) \<and>
        shard_matrix p ! nat gpu_id ! nat tid = 1)"
    unfolding std_find_end_iff in_shard_devices ..
  show ?thesis
  proof (cases "std_find ?L gpu_id = length ?L")
    case True
    with mem show ?thesis
      by (simp add: get_table_shard_id_def loop Let_def del: length_map)
  next
    case False
    with mem have "0 \<le> gpu_id \<and> nat gpu_id < length (shard_matrix p) \<and>
        shard_matrix p ! nat gpu_id ! nat tid = 1" by blast
    with False show ?thesis
      using to_int_small [OF pos] to_int_small [OF len]
      by (simp add: get_table_shard_id_def loop Let_def)
  qed
qed

lemma get_table_shard_id_rank:
  assumes "table_in_rows (shard_matrix p) tid" and "length (shard_matrix p) < 2 ^ 31"
    and "i < length (shard_devices (shard_matrix p) tid)"
  shows "get_table_shard_id p (int (shard_devices (shard_matrix p) tid ! i)) tid =
           Inr (int i, int (length (shard_devices (shard_matrix p) tid)))"
proof -
  let ?D = "shard_devices (shard_matrix p) tid"
  let ?L = "map int ?D"
  have d: "distinct ?L" by (simp add: distinct_map distinct_shard_devices)
  from assms(3) have i: "i < length ?L" by simp
  from std_find_index [OF d i] assms(3) have pos: "std_find ?L (int (?D ! i)) = i" by simp
  from assms(3) have "int (?D ! i) \<in> set ?L" by simp
  then have "0 \<le> int (?D ! i) \<and> nat (int (?D ! i)) < length (shard_matrix p) \<and>
        shard_matrix p ! nat (int (?D ! i)) ! nat tid = 1"
    unfolding in_shard_devices .
  then show ?thesis
    unfolding get_table_shard_id_eq [OF assms(1,2)] pos by simp
qed

subsection \<open>Unique table ids\<close>

lemma sorted_remdups_adj_full:
  "sorted xs \<Longrightarrow> length (remdups_adj xs) = length xs \<Longrightarrow> distinct xs"
proof (induction xs rule: remdups_adj.induct)
  case 1
  show ?case by simp
next
  case (2 x)
  show ?case by simp
next
  case (3 x y xs)
  show ?case
  proof (cases "x = y")
    case True
    have "length (remdups_adj (x # xs)) \<le> length (x # xs)" by (rule remdups_adj_length)
    with True "3.prems"(2) show ?thesis by simp
  next
    case False
    with "3.prems" have "distinct (y # xs)" using "3.IH"(2) by simp
    moreover from "3.prems"(1) False have "x \<notin> set (y # xs)" by fastforce
    ultimately show ?thesis by simp
  qed
qed

lemma same_length_set_distinct:
  assumes "distinct ys" and "set ys = set xs" and "length ys = length xs"
  shows "distinct xs"
proof -
  from assms(1) have "card (set ys) = length ys" by (rule distinct_card)
  with assms(2,3) have "card (set xs) = length xs" by simp
  then show ?thesis by (rule card_distinct)
qed

lemma WgradAttr_init_shortcut:
  assumes init: "WgradAttr_init p grouped_id = Inr a"
    and same: "wgrad_num_table a = wgrad_num_lookup a"
  shows "distinct (lookup_id_to_table_ids a)"
    and "set (lookup_id_to_table_ids a) = set (sorted_unique_table_ids a)"
    and "sort (lookup_id_to_table_ids a) = sorted_unique_table_ids a"
proof -
  define ids where "ids = lookup_ids (grouped_lookup_params p ! grouped_id)"
  define tables where "tables = map (\<lambda>lid. table_id (lookup_params p ! nat lid)) ids"
  define st where "st = map snd (sort_key snd (zip ids tables))"
  from init have a: "a = \<lparr>wgrad_num_table = int (length (remdups_adj st)),
                          wgrad_num_lookup = int (length ids),
                          lookup_id_to_table_ids = tables,
                          sorted_lookup_ids = map fst (sort_key snd (zip ids tables)),
                          sorted_table_ids = st,
                          sorted_unique_table_ids = remdups_adj st\<rparr>"
    by (simp add: WgradAttr_init_def Let_def ids_def tables_def st_def split: if_splits)
  have len: "length tables = length ids" by (simp add: tables_def)
  have st_sorted: "sorted st" unfolding st_def by (rule sorted_sort_key)
  have st_len: "length st = length tables" by (simp add: st_def len)
  have st_set: "set st = set tables"
  proof -
    have "set st = snd ` set (zip ids tables)" by (simp add: st_def)
    also have "\<dots> = set (map snd (zip ids tables))" by simp
    also have "\<dots> = set tables" using len by simp
    finally show ?thesis .
  qed
  from same a have "length (remdups_adj st) = length st" by (simp add: st_len len)
  with st_sorted have st_distinct: "distinct st" by (rule sorted_remdups_adj_full)
  then have unique: "remdups_adj st = st" by (rule remdups_adj_distinct)
  from st_distinct st_set st_len have d: "distinct tables" by (rule same_length_set_distinct)
  from d a show "distinct (lookup_id_to_table_ids a)" by simp
  from st_set a unique show "set (lookup_id_to_table_ids a) = set (sorted_unique_table_ids a)"
    by simp
  have "sort tables = st"
  proof (rule sorted_distinct_set_unique)
    show "sorted (sort tables)" by simp
    show "distinct (sort tables)" using d by simp
    show "sorted st" by (rule st_sorted)
    show "distinct st" by (rule st_distinct)
    show "set (sort tables) = set st" using st_set by simp
  qed
  with a unique show "sort (lookup_id_to_table_ids a) = sorted_unique_table_ids a" by simp
qed

subsection \<open>When the constructor throws\<close>

lemma dense_ids_nonempty:
  "dense_ids lps tids ls \<noteq> [] \<longleftrightarrow>
     (\<exists>l \<in> set ls. table_id (lps ! l) \<in> set tids \<and> combiner (lps ! l) = Concat)"
  by (simp add: dense_ids_def filter_empty_conv)

lemma fatal_configuration_iff:
  "fatal_configuration dcs nl lps gtps \<longleftrightarrow> (\<exists>tp \<in> set gtps. rejects dcs nl lps tp)"
  unfolding fatal_configuration_def rejects_def unsupported_in_def dense_ids_nonempty
  by blast

lemma table_group_loop_Inr_iff:
  assumes "nat nl \<le> length lps"
  shows "(\<exists>glps'. table_group_loop dcs nl lps gtps i glps = Inr glps') \<longleftrightarrow>
           \<not> fatal_configuration dcs nl lps gtps"
proof (cases "fatal_configuration dcs nl lps gtps")
  case True
  then have "\<exists>tp \<in> set gtps. rejects dcs nl lps tp" by (simp add: fatal_configuration_iff)
  from table_group_loop_rejects [OF assms this, of i glps] True show ?thesis by auto
next
  case False
  then have "\<forall>tp \<in> set gtps. \<not> rejects dcs nl lps tp" by (simp add: fatal_configuration_iff)
  from table_group_loop_accepts [OF assms this, of i glps] False show ?thesis by simp
qed

lemma table_group_loop_IllegalCall_iff:
  assumes "nat nl \<le> length lps"
  shows "(\<exists>msg. table_group_loop dcs nl lps gtps i glps = Inl (IllegalCall msg)) \<longleftrightarrow>
           fatal_configuration dcs nl lps gtps"
proof (cases "fatal_configuration dcs nl lps gtps")
  case True
  then have "\<exists>tp \<in> set gtps. rejects dcs nl lps tp" by (simp add: fatal_configuration_iff)
  from table_group_loop_rejects [OF assms this, of i glps] True show ?thesis by simp
next
  case False
  then have "\<forall>tp \<in> set gtps. \<not> rejects dcs nl lps tp" by (simp add: fatal_configuration_iff)
  from table_group_loop_accepts [OF assms this, of i glps] False show ?thesis by simp
qed

lemma ctor_Inr_groups:
  assumes "nat nl \<le> length lps"
    and "EmbeddingCollectionParam_ctor nt nl lps sm gtps b = Inr p"
  shows "grouped_lookup_params p = groups_from Unique nl lps gtps 0"
    and "\<not> fatal_configuration Unique nl lps gtps"
proof -
  from assms(2) obtain glps where loop: "table_group_loop Unique nl lps gtps 0 [] = Inr glps"
    and p: "grouped_lookup_params p = glps"
    by (auto simp add: EmbeddingCollectionParam_ctor_def split: sum.splits)
  from loop table_group_loop_Inr_iff [OF assms(1), of Unique gtps 0 "[]"]
  show nf: "\<not> fatal_configuration Unique nl lps gtps" by blast
  then have "\<forall>tp \<in> set gtps. \<not> rejects Unique nl lps tp" by (simp add: fatal_configuration_iff)
  from table_group_loop_accepts [OF assms(1) this, of 0 "[]"] loop p
  show "grouped_lookup_params p = groups_from Unique nl lps gtps 0" by simp
qed

lemma ctor_Inr_iff:
  assumes "nat nl \<le> length lps"
  shows "(\<exists>p. EmbeddingCollectionParam_ctor nt nl lps sm gtps b = Inr p) \<longleftrightarrow>
           \<not> fatal_configuration Unique nl lps gtps"
  using table_group_loop_Inr_iff [OF assms, of Unique gtps 0 "[]"]
  by (auto simp add: EmbeddingCollectionParam_ctor_def split: sum.splits)

lemma ctor_IllegalCall_iff:
  assumes "nat nl \<le> length lps"
  shows "(\<exists>msg. EmbeddingCollectionParam_ctor nt nl lps sm gtps b = Inl (IllegalCall msg)) \<longleftrightarrow>
           fatal_configuration Unique nl lps gtps"
  using table_group_loop_IllegalCall_iff [OF assms, of Unique gtps 0 "[]"]
  by (auto simp add: EmbeddingCollectionParam_ctor_def split: sum.splits)

lemma unreferenced_not_rejected:
  assumes "\<forall>l < nat nl. table_id (lps ! l) \<notin> set (table_ids tp)"
  shows "\<not> rejects dcs nl lps tp"
  using assms by (auto simp add: rejects_def unsupported_in_def dense_ids_nonempty)

lemma fatal_configuration_without:
  assumes k: "k < length gtps"
    and unref: "\<forall>l < nat nl. table_id (lps ! l) \<notin> set (table_ids (gtps ! k))"
  shows "fatal_configuration dcs nl lps gtps \<longleftrightarrow>
         fatal_configuration dcs nl lps (take k gtps @ drop (Suc k) gtps)"
proof -
  from k have "gtps = take k gtps @ gtps ! k # drop (Suc k) gtps" by (rule id_take_nth_drop)
  then have "set gtps = insert (gtps ! k) (set (take k gtps @ drop (Suc k) gtps))"
    by (metis Un_insert_right list.simps(15) set_append)
  with unreferenced_not_rejected [OF unref, of dcs] show ?thesis
    by (auto simp add: fatal_configuration_iff)
qed

subsection \<open>Changing one entry of the shard matrix\<close>

lemma boolean_column_entry:
  assumes "boolean_column sm tid" and "g < length sm"
  shows "(sm ! g ! nat tid \<noteq> 0) = (sm ! g ! nat tid = 1)"
proof -
  from assms(2) have "sm ! g \<in> set sm" by simp
  with assms(1) have "sm ! g ! nat tid = 0 \<or> sm ! g ! nat tid = 1"
    unfolding boolean_column_def by blast
  then show ?thesis by auto
qed

lemma devices_with_portion_boolean:
  assumes "boolean_column sm tid"
  shows "devices_with_portion sm tid = shard_devices sm tid"
  unfolding shard_devices_def devices_with_portion_def
proof (rule filter_cong [OF refl])
  fix g assume "g \<in> set [0..<length sm]"
  then have "g < length sm" by simp
  from boolean_column_entry [OF assms this]
  show "(sm ! g ! nat tid \<noteq> 0) = (sm ! g ! nat tid = 1)" .
qed

lemma has_table_shard_True:
  assumes "has_table_shard p gpu_id grouped_id lid = Inr True"
  shows "0 \<le> gpu_id \<and> nat gpu_id < length (shard_matrix p) \<and>
         shard_matrix p ! nat gpu_id ! nat (table_id (lookup_params p ! nat lid)) \<noteq> 0"
  using assms
  by (auto simp add: has_table_shard_def Let_def split: if_splits sum.splits)

lemma table_in_rows_update:
  assumes "table_in_rows sm tid"
  shows "table_in_rows (sm[g := (sm ! g)[nat tid := v]]) tid"
proof (cases "g < length sm")
  case False
  then have "sm[g := (sm ! g)[nat tid := v]] = sm" by (simp add: list_update_beyond)
  with assms show ?thesis by simp
next
  case True
  then have g: "sm ! g \<in> set sm" by simp
  have "nat tid < length row" if "row \<in> set (sm[g := (sm ! g)[nat tid := v]])" for row
  proof -
    from that set_update_subset_insert [of sm g "(sm ! g)[nat tid := v]"]
    have "row = (sm ! g)[nat tid := v] \<or> row \<in> set sm" by blast
    with assms g show ?thesis by (auto simp add: table_in_rows_def)
  qed
  with assms show ?thesis by (simp add: table_in_rows_def)
qed

lemma shard_devices_update:
  assumes "sm ! g ! nat tid \<noteq> 1" and "v \<noteq> 1"
  shows "shard_devices (sm[g := (sm ! g)[nat tid := v]]) tid = shard_devices sm tid"
proof -
  have "filter (\<lambda>k. sm[g := (sm ! g)[nat tid := v]] ! k ! nat tid = 1) [0..<length sm] =
        filter (\<lambda>k. sm ! k ! nat tid = 1) [0..<length sm]"
  proof (rule filter_cong [OF refl])
    fix k assume "k \<in> set [0..<length sm]"
    then have k: "k < length sm" by simp
    show "(sm[g := (sm ! g)[nat tid := v]] ! k ! nat tid = 1) = (sm ! k ! nat tid = 1)"
    proof (cases "k = g")
      case True
      with k assms show ?thesis
        by (cases "nat tid < length (sm ! g)") (simp_all add: list_update_beyond)
    next
      case False
      then show ?thesis by simp
    qed
  qed
  then show ?thesis by (simp add: shard_devices_def)
qed

subsection \<open>The groups of the scenario\<close>


lemma emitted_groups_Unique_types:
  "g \<in> set (emitted_groups Unique nl lps tp i) \<Longrightarrow>
     embedding_type g = Sparse \<or> embedding_type g = Dense"
  by (auto simp add: emitted_groups_def Let_def split: if_splits)

lemma ctor_group_types:
  assumes "nat nl \<le> length lps"
    and "EmbeddingCollectionParam_ctor nt nl lps sm gtps b = Inr p"
    and "g \<in> set (grouped_lookup_params p)"
  shows "embedding_type g = Sparse \<or> embedding_type g = Dense"
proof -
  from assms(3) have "g \<in> set (groups_from Unique nl lps gtps 0)"
    by (simp add: ctor_Inr_groups(1) [OF assms(1,2)])
  from groups_from_props [OF this] obtain j
    where "g \<in> set (emitted_groups Unique nl lps (gtps ! j) (0 + j))" by blast
  then show ?thesis by (rule emitted_groups_Unique_types)
qed

subsection \<open>The example configurations\<close>

lemma scenario_ctor:
  "EmbeddingCollectionParam_ctor 3 3 scenario_lookups scenario_shard_matrix scenario_table_groups 8 =
     Inr scenario_param"
  by code_simp

lemma ungrouped_ctor:
  "EmbeddingCollectionParam_ctor 2 2 ungrouped_lookups [[1, 1]] ungrouped_table_groups 8 =
     Inr ungrouped_param"
  by code_simp

lemma unreferenced_ctor:
  "EmbeddingCollectionParam_ctor 2 1 unreferenced_lookups [[1, 1]] unreferenced_table_groups 8 =
     Inr unreferenced_param"
  by code_simp

lemma nonunit_ctor:
  "EmbeddingCollectionParam_ctor 1 2 nonunit_lookups [[2], [1]] nonunit_table_groups 8 =
     Inr nonunit_param"
  by code_simp

section \<open>Lookup groups\<close>

text \<open>
  Claim C1, as amended. The claim says that every lookup id appears in the lookup ids of
  exactly one produced group. The constructor skips a lookup whose table is in no table
  group, so such a lookup appears in no group (the counterexample below). What holds:
  when construction succeeds, every lookup id \<open>lid\<close> with \<open>0 \<le> lid < num_lookup\<close>
  appears in the lookup ids of exactly as many produced groups as there are table groups
  that list its table: in exactly one group when its table belongs to exactly one table
  group, in none when its table belongs to no table group. No produced group lists a
  lookup id twice.
\<close>

theorem lookup_partition_by_table_groups:
  assumes "EmbeddingCollectionParam_ctor nt nl lps sm gtps b = Inr p"
    and "nat nl \<le> length lps" and "0 \<le> lid" and "lid < nl"
  shows "num_groups_with_lookup lid (grouped_lookup_params p) =
           num_table_groups_with_table (table_id (lps ! nat lid)) gtps \<and>
         (\<forall>g \<in> set (grouped_lookup_params p). distinct (lookup_ids g))"
proof
  from assms(3,4) have "0 \<le> lid \<and> nat lid < nat nl" by simp
  then show "num_groups_with_lookup lid (grouped_lookup_params p) =
           num_table_groups_with_table (table_id (lps ! nat lid)) gtps"
    by (simp add: ctor_Inr_groups(1) [OF assms(2,1)] num_groups_with_lookup_groups_from)
  show "\<forall>g \<in> set (grouped_lookup_params p). distinct (lookup_ids g)"
  proof
    fix g assume "g \<in> set (grouped_lookup_params p)"
    then have "g \<in> set (groups_from Unique nl lps gtps 0)"
      by (simp add: ctor_Inr_groups(1) [OF assms(2,1)])
    from groups_from_props [OF this] obtain j
      where "g \<in> set (emitted_groups Unique nl lps (gtps ! j) (0 + j))" by blast
    from emitted_groups_props [OF this] show "distinct (lookup_ids g)" by simp
  qed
qed

text \<open>
  The counterexample to C1 as stated: lookup 1 refers to table 1, which is in no table
  group; construction succeeds and lookup 1 is in no produced group.
\<close>

theorem lookup_partition_counterexample:
  "EmbeddingCollectionParam_ctor 2 2 ungrouped_lookups [[1, 1]] ungrouped_table_groups 8 =
     Inr ungrouped_param \<and>
   num_groups_with_lookup 1 (grouped_lookup_params ungrouped_param) = 0"
  using ungrouped_ctor
  by (simp add: num_groups_with_lookup_def ungrouped_param_def)

text \<open>The amended statement at lookup 2 of the scenario.\<close>

theorem lookup_partition_by_table_groups_witness:
  "EmbeddingCollectionParam_ctor 3 3 scenario_lookups scenario_shard_matrix scenario_table_groups 8 =
     Inr scenario_param \<and>
   nat 3 \<le> length scenario_lookups \<and> (0::int) \<le> 2 \<and> (2::int) < 3 \<and>
   num_table_groups_with_table (table_id (scenario_lookups ! nat 2)) scenario_table_groups = 1 \<and>
   num_groups_with_lookup 2 (grouped_lookup_params scenario_param) = 1"
proof -
  have len: "nat 3 \<le> length scenario_lookups" by (simp add: scenario_lookups_def)
  have lo: "(0::int) \<le> 2" and hi: "(2::int) < 3" by simp_all
  have one: "num_table_groups_with_table (table_id (scenario_lookups ! nat 2)) scenario_table_groups = 1"
    by (simp add: num_table_groups_with_table_def scenario_lookups_def scenario_table_groups_def)
  from lookup_partition_by_table_groups [OF scenario_ctor len lo hi] one
  have "num_groups_with_lookup 2 (grouped_lookup_params scenario_param) = 1" by simp
  with scenario_ctor len one show ?thesis by simp
qed



text \<open>
  Claim C6. Provided \<open>num_lookup\<close> does not exceed the number of lookup parameters (the
  loop would read past the vector otherwise), construction fails with the fatal
  \<open>IllegalCall\<close> error if and only if some lookup whose table belongs to a table group has
  a combiner other than \<open>Sum\<close>, \<open>Average\<close> or \<open>Concat\<close>, or a dense lookup of a table
  group exists under a strategy other than \<open>Unique\<close> or \<open>CacheFrequent\<close>; otherwise it
  returns the descriptor. This holds for the loop under every value of the strategy
  member, and for the constructor, whose body reads the value \<open>Unique\<close>. The error is the
  result of the construction itself: the model has no second attempt.
\<close>

theorem construction_fails_iff:
  assumes "nat nl \<le> length lps"
  shows "((\<exists>msg. table_group_loop dcs nl lps gtps 0 [] = Inl (IllegalCall msg)) \<longleftrightarrow>
            fatal_configuration dcs nl lps gtps) \<and>
         ((\<exists>glps. table_group_loop dcs nl lps gtps 0 [] = Inr glps) \<longleftrightarrow>
            \<not> fatal_configuration dcs nl lps gtps) \<and>
         ((\<exists>msg. EmbeddingCollectionParam_ctor nt nl lps sm gtps b = Inl (IllegalCall msg)) \<longleftrightarrow>
            fatal_configuration Unique nl lps gtps) \<and>
         ((\<exists>p. EmbeddingCollectionParam_ctor nt nl lps sm gtps b = Inr p) \<longleftrightarrow>
            \<not> fatal_configuration Unique nl lps gtps)"
  using table_group_loop_IllegalCall_iff [OF assms] table_group_loop_Inr_iff [OF assms]
    ctor_IllegalCall_iff [OF assms] ctor_Inr_iff [OF assms]
  by blast

text \<open>The statement at a lookup with combiner byte 7: construction fails.\<close>

theorem construction_fails_iff_witness:
  "nat 1 \<le> length unsupported_lookups \<and>
   fatal_configuration Unique 1 unsupported_lookups ungrouped_table_groups \<and>
   EmbeddingCollectionParam_ctor 1 1 unsupported_lookups [[1]] ungrouped_table_groups 8 =
     Inl (IllegalCall ''combiner not supported in embedding collection.'')"
proof -
  have len: "nat 1 \<le> length unsupported_lookups" by (simp add: unsupported_lookups_def)
  have fatal: "fatal_configuration Unique 1 unsupported_lookups ungrouped_table_groups"
    by (simp add: fatal_configuration_def unsupported_lookups_def ungrouped_table_groups_def
          enum_defs)
  from construction_fails_iff [OF len, of Unique ungrouped_table_groups 1 "[[1]]" 8] fatal
  have "\<exists>msg. EmbeddingCollectionParam_ctor 1 1 unsupported_lookups [[1]] ungrouped_table_groups 8 =
          Inl (IllegalCall msg)" by blast
  then have "EmbeddingCollectionParam_ctor 1 1 unsupported_lookups [[1]] ungrouped_table_groups 8 =
     Inl (IllegalCall ''combiner not supported in embedding collection.'')"
    by (simp add: EmbeddingCollectionParam_ctor_def unsupported_lookups_def
          ungrouped_table_groups_def enum_defs)
  with len fatal show ?thesis by simp
qed

text \<open>
  Claim C8, as amended. The claim says that a table group none of whose tables is
  referenced by any lookup is rejected at construction. The constructor tests
  \<^verbatim>\<open>!sparse_lookup_ids.empty()\<close> and \<^verbatim>\<open>!dense_lookup_ids.empty()\<close> before it appends a
  group and throws in neither case (the counterexample below). What holds: such a table
  group \<open>k\<close> is skipped. Construction succeeds exactly when it would succeed without
  that table group, no produced group carries the index \<open>k\<close>, and no produced group has
  zero lookups.
\<close>

theorem unreferenced_table_group_skipped:
  assumes "nat nl \<le> length lps" and "k < length gtps" and "length gtps < 2 ^ 31"
    and "\<forall>l < nat nl. table_id (lps ! l) \<notin> set (table_ids (gtps ! k))"
  shows "((\<exists>p. EmbeddingCollectionParam_ctor nt nl lps sm gtps b = Inr p) \<longleftrightarrow>
            \<not> fatal_configuration Unique nl lps (take k gtps @ drop (Suc k) gtps)) \<and>
         (\<forall>p. EmbeddingCollectionParam_ctor nt nl lps sm gtps b = Inr p \<longrightarrow>
            (\<forall>g \<in> set (grouped_lookup_params p).
               lookup_ids g \<noteq> [] \<and> grouped_table_idx g \<noteq> int k))"
proof (intro conjI allI impI ballI)
  show "(\<exists>p. EmbeddingCollectionParam_ctor nt nl lps sm gtps b = Inr p) \<longleftrightarrow>
            \<not> fatal_configuration Unique nl lps (take k gtps @ drop (Suc k) gtps)"
    using ctor_Inr_iff [OF assms(1)] fatal_configuration_without [OF assms(2,4)] by simp
next
  fix p g
  assume p: "EmbeddingCollectionParam_ctor nt nl lps sm gtps b = Inr p"
    and g: "g \<in> set (grouped_lookup_params p)"
  from g have "g \<in> set (groups_from Unique nl lps gtps 0)"
    by (simp add: ctor_Inr_groups(1) [OF assms(1) p])
  from groups_from_props [OF this] obtain j where j: "j < length gtps"
    and "g \<in> set (emitted_groups Unique nl lps (gtps ! j) (0 + j))" by blast
  from emitted_groups_props [OF this(2)]
  have ne: "lookup_ids g \<noteq> []"
    and mem: "\<forall>lid \<in> set (lookup_ids g). 0 \<le> lid \<and> nat lid < nat nl \<and>
                table_id (lps ! nat lid) \<in> set (table_ids (gtps ! j))"
    and idx: "grouped_table_idx g = to_int j" by simp_all
  from ne show "lookup_ids g \<noteq> []" .
  show "grouped_table_idx g \<noteq> int k"
  proof
    assume eq: "grouped_table_idx g = int k"
    from j assms(3) have "j < 2 ^ 31" by simp
    with idx eq have "j = k" by (simp add: to_int_small)
    from ne obtain lid where "lid \<in> set (lookup_ids g)" by (cases "lookup_ids g") auto
    with mem \<open>j = k\<close> have "nat lid < nat nl" and "table_id (lps ! nat lid) \<in> set (table_ids (gtps ! k))"
      by simp_all
    with assms(4) show False by blast
  qed
qed

text \<open>
  The counterexample to C8 as stated: no lookup refers to table 1 of the second table
  group, its two id vectors are empty, and construction succeeds.
\<close>

theorem empty_group_counterexample:
  "sparse_ids unreferenced_lookups (table_ids (unreferenced_table_groups ! 1)) [0..<nat 1] = [] \<and>
   dense_ids unreferenced_lookups (table_ids (unreferenced_table_groups ! 1)) [0..<nat 1] = [] \<and>
   EmbeddingCollectionParam_ctor 2 1 unreferenced_lookups [[1, 1]] unreferenced_table_groups 8 =
     Inr unreferenced_param"
  using unreferenced_ctor
  by (simp add: sparse_ids_def dense_ids_def unreferenced_lookups_def unreferenced_table_groups_def)

text \<open>The amended statement at the same configuration.\<close>

theorem unreferenced_table_group_skipped_witness:
  "nat 1 \<le> length unreferenced_lookups \<and> (1::nat) < length unreferenced_table_groups \<and>
   length unreferenced_table_groups < 2 ^ 31 \<and>
   table_id (unreferenced_lookups ! 0) \<notin> set (table_ids (unreferenced_table_groups ! 1)) \<and>
   \<not> fatal_configuration Unique 1 unreferenced_lookups
       (take 1 unreferenced_table_groups @ drop (Suc 1) unreferenced_table_groups) \<and>
   EmbeddingCollectionParam_ctor 2 1 unreferenced_lookups [[1, 1]] unreferenced_table_groups 8 =
     Inr unreferenced_param \<and>
   map grouped_table_idx (grouped_lookup_params unreferenced_param) = [0]"
proof -
  have len: "nat 1 \<le> length unreferenced_lookups" by (simp add: unreferenced_lookups_def)
  have k: "(1::nat) < length unreferenced_table_groups"
    and n: "length unreferenced_table_groups < 2 ^ 31"
    by (simp_all add: unreferenced_table_groups_def)
  have notin: "table_id (unreferenced_lookups ! 0) \<notin> set (table_ids (unreferenced_table_groups ! 1))"
    by (simp add: unreferenced_lookups_def unreferenced_table_groups_def)
  then have unref: "\<forall>l < nat 1. table_id (unreferenced_lookups ! l) \<notin>
                       set (table_ids (unreferenced_table_groups ! 1))" by simp
  have ok: "\<not> fatal_configuration Unique 1 unreferenced_lookups
       (take 1 unreferenced_table_groups @ drop (Suc 1) unreferenced_table_groups)"
    by (simp add: fatal_configuration_def unreferenced_lookups_def unreferenced_table_groups_def
          enum_defs)
  from unreferenced_table_group_skipped [OF len k n unref, of 2 "[[1, 1]]" 8] ok
  have "\<exists>p. EmbeddingCollectionParam_ctor 2 1 unreferenced_lookups [[1, 1]]
              unreferenced_table_groups 8 = Inr p" by blast
  with unreferenced_ctor
  have c: "EmbeddingCollectionParam_ctor 2 1 unreferenced_lookups [[1, 1]]
              unreferenced_table_groups 8 = Inr unreferenced_param" by simp
  have idx: "map grouped_table_idx (grouped_lookup_params unreferenced_param) = [0]"
    by (simp add: unreferenced_param_def)
  from len k n notin ok c idx show ?thesis by simp
qed

text \<open>
  Claim C10. A lookup \<open>lid\<close> whose table id appears in no table group is silently
  excluded, whatever its combiner \<open>c\<close>: construction with that combiner succeeds exactly
  when the configuration of the other lookups is not fatal (the lookup itself raises no
  error, even with a combiner that is none of the three), the lookup id is in the lookup
  ids of no produced group, and the produced groups are those built for any other
  combiner of that lookup.
\<close>

theorem ungrouped_lookup_excluded:
  assumes "nat nl \<le> length lps" and "0 \<le> lid" and "lid < nl"
    and "\<forall>tp \<in> set gtps. table_id (lps ! nat lid) \<notin> set (table_ids tp)"
  shows "((\<exists>p. EmbeddingCollectionParam_ctor nt nl (lps[nat lid := (lps ! nat lid)\<lparr>combiner := c\<rparr>])
                 sm gtps b = Inr p) \<longleftrightarrow>
            \<not> fatal_configuration Unique nl lps gtps) \<and>
         (\<forall>p. EmbeddingCollectionParam_ctor nt nl (lps[nat lid := (lps ! nat lid)\<lparr>combiner := c\<rparr>])
                 sm gtps b = Inr p \<longrightarrow>
            num_groups_with_lookup lid (grouped_lookup_params p) = 0 \<and>
            (\<exists>q. EmbeddingCollectionParam_ctor nt nl lps sm gtps b = Inr q \<and>
                 grouped_lookup_params q = grouped_lookup_params p))"
proof -
  let ?lps = "lps[nat lid := (lps ! nat lid)\<lparr>combiner := c\<rparr>]"
  have eq: "table_id ((lps ! nat lid)\<lparr>combiner := c\<rparr>) = table_id (lps ! nat lid)" by simp
  have loop: "table_group_loop Unique nl ?lps gtps 0 [] = table_group_loop Unique nl lps gtps 0 []"
    by (rule table_group_loop_update [OF assms(1) eq assms(4)])
  from assms(1) have len: "nat nl \<le> length ?lps" by simp
  from assms(2,3) have l: "nat lid < nat nl" by simp
  from l assms(1) have "nat lid < length lps" by (rule less_le_trans)
  then have tid: "table_id (?lps ! nat lid) = table_id (lps ! nat lid)" by simp
  have ok: "(\<exists>p. EmbeddingCollectionParam_ctor nt nl ?lps sm gtps b = Inr p) \<longleftrightarrow>
              \<not> fatal_configuration Unique nl lps gtps"
    using table_group_loop_Inr_iff [OF assms(1), of Unique gtps 0 "[]"]
    by (auto simp add: EmbeddingCollectionParam_ctor_def loop split: sum.splits)
  have groups: "num_groups_with_lookup lid (grouped_lookup_params p) = 0 \<and>
            (\<exists>q. EmbeddingCollectionParam_ctor nt nl lps sm gtps b = Inr q \<and>
                 grouped_lookup_params q = grouped_lookup_params p)"
    if p: "EmbeddingCollectionParam_ctor nt nl ?lps sm gtps b = Inr p" for p
  proof
    from assms(4) have "num_table_groups_with_table (table_id (lps ! nat lid)) gtps = 0"
      by (simp add: num_table_groups_with_table_def filter_empty_conv)
    with assms(2) l tid show "num_groups_with_lookup lid (grouped_lookup_params p) = 0"
      by (simp add: ctor_Inr_groups(1) [OF len p] num_groups_with_lookup_groups_from)
    from p show "\<exists>q. EmbeddingCollectionParam_ctor nt nl lps sm gtps b = Inr q \<and>
                 grouped_lookup_params q = grouped_lookup_params p"
      by (auto simp add: EmbeddingCollectionParam_ctor_def loop split: sum.splits)
  qed
  from ok groups show ?thesis by blast
qed

text \<open>
  The statement at lookup 1 of the two-lookup configuration, given the combiner byte 7.
\<close>

theorem ungrouped_lookup_excluded_witness:
  "nat 2 \<le> length ungrouped_lookups \<and> (0::int) \<le> 1 \<and> (1::int) < 2 \<and>
   table_id (ungrouped_lookups ! nat 1) \<notin> set (table_ids (ungrouped_table_groups ! 0)) \<and>
   \<not> fatal_configuration Unique 2 ungrouped_lookups ungrouped_table_groups \<and>
   EmbeddingCollectionParam_ctor 2 2
     (ungrouped_lookups[nat 1 := (ungrouped_lookups ! nat 1)\<lparr>combiner := 7\<rparr>])
     [[1, 1]] ungrouped_table_groups 8 =
     Inr (ungrouped_param\<lparr>lookup_params :=
            ungrouped_lookups[nat 1 := (ungrouped_lookups ! nat 1)\<lparr>combiner := 7\<rparr>]\<rparr>) \<and>
   num_groups_with_lookup 1 (grouped_lookup_params ungrouped_param) = 0"
proof -
  let ?lps = "ungrouped_lookups[nat 1 := (ungrouped_lookups ! nat 1)\<lparr>combiner := 7\<rparr>]"
  let ?p = "ungrouped_param\<lparr>lookup_params := ?lps\<rparr>"
  have len: "nat 2 \<le> length ungrouped_lookups" by (simp add: ungrouped_lookups_def)
  have lo: "(0::int) \<le> 1" and hi: "(1::int) < 2" by simp_all
  have notin: "table_id (ungrouped_lookups ! nat 1) \<notin> set (table_ids (ungrouped_table_groups ! 0))"
    by (simp add: ungrouped_lookups_def ungrouped_table_groups_def)
  then have none: "\<forall>tp \<in> set ungrouped_table_groups.
                     table_id (ungrouped_lookups ! nat 1) \<notin> set (table_ids tp)"
    by (simp add: ungrouped_table_groups_def)
  have ok: "\<not> fatal_configuration Unique 2 ungrouped_lookups ungrouped_table_groups"
    by (simp add: fatal_configuration_def ungrouped_lookups_def ungrouped_table_groups_def
          enum_defs upt_conv_Cons)
  note e = ungrouped_lookup_excluded [OF len lo hi none, of 2 7 "[[1, 1]]" 8]
  from e ok obtain p where p: "EmbeddingCollectionParam_ctor 2 2 ?lps [[1, 1]]
                                 ungrouped_table_groups 8 = Inr p" by blast
  have c: "EmbeddingCollectionParam_ctor 2 2 ?lps [[1, 1]] ungrouped_table_groups 8 = Inr ?p"
    by code_simp
  with p have "p = ?p" by simp
  with e p have "num_groups_with_lookup 1 (grouped_lookup_params ?p) = 0" by blast
  then have z: "num_groups_with_lookup 1 (grouped_lookup_params ungrouped_param) = 0" by simp
  from len notin ok c z show ?thesis by simp
qed

section \<open>Shard ownership\<close>

text \<open>
  Claim C2. For every device \<open>gpu_id\<close>, group \<open>grouped_id\<close> and lookup \<open>lid\<close> that index the
  shard matrix, the produced groups and the lookup list, whether the lookup is in the group
  or not and whether the device has a portion of the table or not, \<open>has_table_shard\<close>
  returns a truth value, and that value is true if and only if \<open>lookup_id_in_group\<close> is
  true for the group and the lookup and the entry of the shard matrix for the device and
  the lookup's table is not zero.
\<close>

theorem has_table_shard_iff:
  assumes "0 \<le> lid" and "nat lid < length (lookup_params p)"
    and "0 \<le> gpu_id" and "nat gpu_id < length (shard_matrix p)"
    and "0 \<le> table_id (lookup_params p ! nat lid)"
    and "nat (table_id (lookup_params p ! nat lid)) < length (shard_matrix p ! nat gpu_id)"
    and "grouped_id < length (grouped_lookup_params p)"
  shows "(\<exists>b. has_table_shard p gpu_id grouped_id lid = Inr b) \<and>
         (has_table_shard p gpu_id grouped_id lid = Inr True \<longleftrightarrow>
            lookup_id_in_group p grouped_id lid = Inr True \<and>
            shard_matrix p ! nat gpu_id ! nat (table_id (lookup_params p ! nat lid)) \<noteq> 0)"
  using assms by (simp add: has_table_shard_def lookup_id_in_group_def Let_def)

text \<open>The statement at device 1, the dense group and lookup 1 of the scenario.\<close>

theorem has_table_shard_iff_witness:
  "(0::int) \<le> 1 \<and> nat 1 < length (lookup_params scenario_param) \<and>
   nat 1 < length (shard_matrix scenario_param) \<and>
   0 \<le> table_id (lookup_params scenario_param ! nat 1) \<and>
   nat (table_id (lookup_params scenario_param ! nat 1)) < length (shard_matrix scenario_param ! nat 1) \<and>
   (1::nat) < length (grouped_lookup_params scenario_param) \<and>
   lookup_id_in_group scenario_param 1 1 = Inr True \<and>
   shard_matrix scenario_param ! nat 1 ! nat (table_id (lookup_params scenario_param ! nat 1)) \<noteq> 0 \<and>
   has_table_shard scenario_param 1 1 1 = Inr True"
proof -
  have h1: "(0::int) \<le> 1" by simp
  have h2: "nat 1 < length (lookup_params scenario_param)"
    by (simp add: scenario_param_def scenario_lookups_def)
  have h4: "nat 1 < length (shard_matrix scenario_param)"
    by (simp add: scenario_param_def scenario_shard_matrix_def)
  have h5: "0 \<le> table_id (lookup_params scenario_param ! nat 1)"
    by (simp add: scenario_param_def scenario_lookups_def)
  have h6: "nat (table_id (lookup_params scenario_param ! nat 1)) < length (shard_matrix scenario_param ! nat 1)"
    by (simp add: scenario_param_def scenario_lookups_def scenario_shard_matrix_def)
  have h7: "(1::nat) < length (grouped_lookup_params scenario_param)"
    by (simp add: scenario_param_def)
  have g: "lookup_id_in_group scenario_param 1 1 = Inr True"
    by (simp add: lookup_id_in_group_def scenario_param_def)
  have e: "shard_matrix scenario_param ! nat 1 ! nat (table_id (lookup_params scenario_param ! nat 1)) \<noteq> 0"
    by (simp add: scenario_param_def scenario_lookups_def scenario_shard_matrix_def)
  from has_table_shard_iff [OF h1 h2 h1 h4 h5 h6 h7] g e
  have "has_table_shard scenario_param 1 1 1 = Inr True" by blast
  with h1 h2 h4 h5 h6 h7 g e show ?thesis by blast
qed

text \<open>
  Claim C3. The shard matrix of the spec is boolean, and a device holds a shard of a table
  when its entry for the table is not 0 (the test of \<open>has_table_shard\<close>). For a table that
  indexes every row, fewer than \<open>2 ^ 31\<close> devices and a column with entries 0 and 1 only:
  the result of \<open>get_table_shard_id\<close> is a function of the shard matrix, the device and
  the table, so repeated queries agree; the devices holding a shard of the table are
  listed in ascending order; and the device at position \<open>i\<close> of that list gets the rank
  \<open>i\<close> and, as \<open>num_shard\<close>, the length of the list. Over the devices holding a shard the
  ranks are therefore \<open>0, \<dots>, num_shard - 1\<close>, each once. What the query does at an
  entry that is neither 0 nor 1 is the subject of claim C9.
\<close>

theorem shard_rank_is_position:
  assumes "table_in_rows (shard_matrix p) tid" and "length (shard_matrix p) < 2 ^ 31"
    and "boolean_column (shard_matrix p) tid"
  shows "sorted_wrt (<) (devices_with_portion (shard_matrix p) tid) \<and>
         (\<forall>i < length (devices_with_portion (shard_matrix p) tid).
            get_table_shard_id p (int (devices_with_portion (shard_matrix p) tid ! i)) tid =
              Inr (int i, int (length (devices_with_portion (shard_matrix p) tid))))"
  unfolding devices_with_portion_boolean [OF assms(3)]
  using sorted_shard_devices get_table_shard_id_rank [OF assms(1,2)]
  by blast

text \<open>The statement at table 0 of the scenario, of which both devices hold a shard.\<close>

theorem shard_rank_is_position_witness:
  "table_in_rows (shard_matrix scenario_param) 0 \<and>
   length (shard_matrix scenario_param) < 2 ^ 31 \<and>
   boolean_column (shard_matrix scenario_param) 0 \<and>
   devices_with_portion (shard_matrix scenario_param) 0 = [0, 1] \<and>
   get_table_shard_id scenario_param 0 0 = Inr (0, 2) \<and>
   get_table_shard_id scenario_param 1 0 = Inr (1, 2)"
proof -
  have rows: "table_in_rows (shard_matrix scenario_param) 0"
    by (simp add: table_in_rows_def scenario_param_def scenario_shard_matrix_def)
  have len: "length (shard_matrix scenario_param) < 2 ^ 31"
    by (simp add: scenario_param_def scenario_shard_matrix_def)
  have bool: "boolean_column (shard_matrix scenario_param) 0"
    by (simp add: boolean_column_def scenario_param_def scenario_shard_matrix_def)
  have dev: "devices_with_portion (shard_matrix scenario_param) 0 = [0, 1]"
    by (simp add: devices_with_portion_def scenario_param_def scenario_shard_matrix_def
          upt_conv_Cons)
  have i0: "0 < length (devices_with_portion (shard_matrix scenario_param) 0)"
    and i1: "1 < length (devices_with_portion (shard_matrix scenario_param) 0)"
    by (simp_all add: dev)
  from shard_rank_is_position [OF rows len bool] i0
  have "get_table_shard_id scenario_param
          (int (devices_with_portion (shard_matrix scenario_param) 0 ! 0)) 0 =
          Inr (int 0, int (length (devices_with_portion (shard_matrix scenario_param) 0)))"
    by blast
  then have r0: "get_table_shard_id scenario_param 0 0 = Inr (0, 2)" by (simp add: dev)
  from shard_rank_is_position [OF rows len bool] i1
  have "get_table_shard_id scenario_param
          (int (devices_with_portion (shard_matrix scenario_param) 0 ! 1)) 0 =
          Inr (int 1, int (length (devices_with_portion (shard_matrix scenario_param) 0)))"
    by blast
  then have r1: "get_table_shard_id scenario_param 1 0 = Inr (1, 2)" by (simp add: dev)
  from rows len bool dev r0 r1 show ?thesis by simp
qed

text \<open>
  Claim C4. For a table that indexes every row, fewer than \<open>2 ^ 31\<close> devices and a column
  with entries 0 and 1 only: \<open>get_table_shard_id\<close> fails with the check's message
  \<^verbatim>\<open>get_table_shard_id does not find shard id\<close> for every device that holds no shard of
  the table (its entry is 0, or its index is outside the matrix), and it returns a result
  for every device that holds one; in particular it returns a result whenever
  \<open>has_table_shard\<close> answered true for the device and a lookup on that table, the check
  that the spec expects of callers. What the query does at an entry that is neither 0
  nor 1 is the subject of claim C9.
\<close>

theorem get_table_shard_id_fails_iff:
  assumes rows: "table_in_rows (shard_matrix p) tid" and len: "length (shard_matrix p) < 2 ^ 31"
    and bool: "boolean_column (shard_matrix p) tid"
  shows "(\<not> (0 \<le> gpu_id \<and> nat gpu_id < length (shard_matrix p) \<and>
              shard_matrix p ! nat gpu_id ! nat tid \<noteq> 0) \<longrightarrow>
            get_table_shard_id p gpu_id tid =
              Inl (CheckFailed ''get_table_shard_id does not find shard id'')) \<and>
         (0 \<le> gpu_id \<and> nat gpu_id < length (shard_matrix p) \<and>
            shard_matrix p ! nat gpu_id ! nat tid \<noteq> 0 \<longrightarrow>
            (\<exists>r. get_table_shard_id p gpu_id tid = Inr r)) \<and>
         (\<forall>grouped_id lid.
            table_id (lookup_params p ! nat lid) = tid \<and>
            has_table_shard p gpu_id grouped_id lid = Inr True \<longrightarrow>
            (\<exists>r. get_table_shard_id p gpu_id tid = Inr r))"
proof -
  have holds: "\<exists>r. get_table_shard_id p gpu_id tid = Inr r"
    if "0 \<le> gpu_id \<and> nat gpu_id < length (shard_matrix p) \<and>
        shard_matrix p ! nat gpu_id ! nat tid \<noteq> 0"
  proof -
    from that boolean_column_entry [OF bool, of "nat gpu_id"]
    have "shard_matrix p ! nat gpu_id ! nat tid = 1" by simp
    with that show ?thesis by (simp add: get_table_shard_id_eq [OF rows len])
  qed
  have fails: "get_table_shard_id p gpu_id tid =
              Inl (CheckFailed ''get_table_shard_id does not find shard id'')"
    if "\<not> (0 \<le> gpu_id \<and> nat gpu_id < length (shard_matrix p) \<and>
              shard_matrix p ! nat gpu_id ! nat tid \<noteq> 0)"
  proof -
    from that have "\<not> (0 \<le> gpu_id \<and> nat gpu_id < length (shard_matrix p) \<and>
              shard_matrix p ! nat gpu_id ! nat tid = 1)" by auto
    then show ?thesis by (simp add: get_table_shard_id_eq [OF rows len])
  qed
  have checked: "\<exists>r. get_table_shard_id p gpu_id tid = Inr r"
    if "table_id (lookup_params p ! nat lid) = tid \<and>
        has_table_shard p gpu_id grouped_id lid = Inr True" for grouped_id lid
  proof -
    from that has_table_shard_True [of p gpu_id grouped_id lid]
    have "0 \<le> gpu_id \<and> nat gpu_id < length (shard_matrix p) \<and>
        shard_matrix p ! nat gpu_id ! nat tid \<noteq> 0" by auto
    then show ?thesis by (rule holds)
  qed
  from holds fails checked show ?thesis by blast
qed

text \<open>
  The statement at table 1 of the scenario: device 0 holds no shard and the query fails,
  device 1 holds the only shard, \<open>has_table_shard\<close> is true for it and the query returns
  rank 0 of 1.
\<close>

theorem get_table_shard_id_fails_iff_witness:
  "table_in_rows (shard_matrix scenario_param) 1 \<and>
   length (shard_matrix scenario_param) < 2 ^ 31 \<and>
   boolean_column (shard_matrix scenario_param) 1 \<and>
   shard_matrix scenario_param ! nat 0 ! nat 1 = 0 \<and>
   get_table_shard_id scenario_param 0 1 =
     Inl (CheckFailed ''get_table_shard_id does not find shard id'') \<and>
   shard_matrix scenario_param ! nat 1 ! nat 1 \<noteq> 0 \<and>
   table_id (lookup_params scenario_param ! nat 1) = 1 \<and>
   has_table_shard scenario_param 1 1 1 = Inr True \<and>
   get_table_shard_id scenario_param 1 1 = Inr (0, 1)"
proof -
  have rows: "table_in_rows (shard_matrix scenario_param) 1"
    by (simp add: table_in_rows_def scenario_param_def scenario_shard_matrix_def)
  have len: "length (shard_matrix scenario_param) < 2 ^ 31"
    by (simp add: scenario_param_def scenario_shard_matrix_def)
  have bool: "boolean_column (shard_matrix scenario_param) 1"
    by (simp add: boolean_column_def scenario_param_def scenario_shard_matrix_def)
  have zero: "shard_matrix scenario_param ! nat 0 ! nat 1 = 0"
    and one: "shard_matrix scenario_param ! nat 1 ! nat 1 \<noteq> 0"
    and n: "nat 1 < length (shard_matrix scenario_param)"
    by (simp_all add: scenario_param_def scenario_shard_matrix_def)
  have tid: "table_id (lookup_params scenario_param ! nat 1) = 1"
    by (simp add: scenario_param_def scenario_lookups_def)
  have has: "has_table_shard scenario_param 1 1 1 = Inr True"
    by (simp add: has_table_shard_def lookup_id_in_group_def scenario_param_def
          scenario_lookups_def scenario_shard_matrix_def)
  from get_table_shard_id_fails_iff [OF rows len bool, of 0] zero
  have fails: "get_table_shard_id scenario_param 0 1 =
     Inl (CheckFailed ''get_table_shard_id does not find shard id'')" by simp
  from get_table_shard_id_fails_iff [OF rows len bool, of 1] one n
  have "\<exists>r. get_table_shard_id scenario_param 1 1 = Inr r" by simp
  moreover from get_table_shard_id_fails_iff [OF rows len bool, of 1] tid has
  have "\<exists>r. get_table_shard_id scenario_param 1 1 = Inr r" by blast
  ultimately have ok: "get_table_shard_id scenario_param 1 1 = Inr (0, 1)"
    by (simp add: get_table_shard_id_def scenario_param_def scenario_shard_matrix_def to_int_def)
  from rows len bool zero fails one tid has ok show ?thesis by simp
qed

text \<open>
  Claim C9. The two shard queries disagree on an entry that is neither 0 nor 1. For a
  device \<open>gpu_id\<close> with such an entry for table \<open>tid\<close>: \<open>has_table_shard\<close> answers true for
  every lookup on that table that is in the queried group; the vector \<^verbatim>\<open>shard_gpus\<close> that
  \<open>get_table_shard_id\<close> builds is the list of the devices with entry 1 and does not
  contain the device; \<open>get_table_shard_id\<close> fails its check for the device; and for every
  device the query returns what it returns when the entry is replaced by 0, so the
  device counts in no \<open>num_shard\<close>.
\<close>

theorem shard_queries_disagree:
  assumes rows: "table_in_rows (shard_matrix p) tid" and len: "length (shard_matrix p) < 2 ^ 31"
    and gpu: "0 \<le> gpu_id" "nat gpu_id < length (shard_matrix p)"
    and entry: "shard_matrix p ! nat gpu_id ! nat tid \<noteq> 0" "shard_matrix p ! nat gpu_id ! nat tid \<noteq> 1"
  shows "(\<forall>grouped_id lid. 0 \<le> lid \<and> nat lid < length (lookup_params p) \<and>
            table_id (lookup_params p ! nat lid) = tid \<and>
            lookup_id_in_group p grouped_id lid = Inr True \<longrightarrow>
            has_table_shard p gpu_id grouped_id lid = Inr True) \<and>
         shard_gpus_loop (shard_matrix p) tid 0 [] = Inr (map int (shard_devices (shard_matrix p) tid)) \<and>
         nat gpu_id \<notin> set (shard_devices (shard_matrix p) tid) \<and>
         get_table_shard_id p gpu_id tid =
           Inl (CheckFailed ''get_table_shard_id does not find shard id'') \<and>
         (\<forall>other. get_table_shard_id p other tid =
            get_table_shard_id
              (p\<lparr>shard_matrix := (shard_matrix p)[nat gpu_id := (shard_matrix p ! nat gpu_id)[nat tid := 0]]\<rparr>)
              other tid)"
proof (intro conjI allI impI)
  fix grouped_id lid
  assume "0 \<le> lid \<and> nat lid < length (lookup_params p) \<and>
            table_id (lookup_params p ! nat lid) = tid \<and>
            lookup_id_in_group p grouped_id lid = Inr True"
  moreover from rows gpu(2) have "0 \<le> tid" and "nat tid < length (shard_matrix p ! nat gpu_id)"
    by (simp_all add: table_in_rows_def)
  ultimately show "has_table_shard p gpu_id grouped_id lid = Inr True"
    using gpu entry(1) by (auto simp add: has_table_shard_def Let_def)
next
  show "shard_gpus_loop (shard_matrix p) tid 0 [] = Inr (map int (shard_devices (shard_matrix p) tid))"
    using shard_gpus_loop_matrix [OF rows] map_to_int_shard_devices [OF len] by simp
next
  show "nat gpu_id \<notin> set (shard_devices (shard_matrix p) tid)"
    using entry(2) by (simp add: shard_devices_def)
next
  show "get_table_shard_id p gpu_id tid =
           Inl (CheckFailed ''get_table_shard_id does not find shard id'')"
    using entry(2) by (simp add: get_table_shard_id_eq [OF rows len])
next
  fix other
  let ?sm = "(shard_matrix p)[nat gpu_id := (shard_matrix p ! nat gpu_id)[nat tid := 0]]"
  let ?q = "p\<lparr>shard_matrix := ?sm\<rparr>"
  have rows': "table_in_rows (shard_matrix ?q) tid"
    using table_in_rows_update [OF rows] by simp
  have len': "length (shard_matrix ?q) < 2 ^ 31" using len by simp
  have dev: "shard_devices ?sm tid = shard_devices (shard_matrix p) tid"
    by (rule shard_devices_update [OF entry(2)]) simp
  have mem: "(0 \<le> other \<and> nat other < length (shard_matrix p) \<and> shard_matrix p ! nat other ! nat tid = 1) =
             (other \<in> set (map int (shard_devices (shard_matrix p) tid)))"
    unfolding in_shard_devices ..
  have mem': "(0 \<le> other \<and> nat other < length (shard_matrix ?q) \<and> shard_matrix ?q ! nat other ! nat tid = 1) =
             (other \<in> set (map int (shard_devices ?sm tid)))"
    unfolding in_shard_devices by simp
  show "get_table_shard_id p other tid = get_table_shard_id ?q other tid"
    unfolding get_table_shard_id_eq [OF rows len] get_table_shard_id_eq [OF rows' len'] mem mem'
    by (simp add: dev)
qed

text \<open>The statement at device 0 and table 0 of the configuration with the entry 2.\<close>

theorem shard_queries_disagree_witness:
  "table_in_rows (shard_matrix nonunit_param) 0 \<and>
   length (shard_matrix nonunit_param) < 2 ^ 31 \<and>
   (0::int) \<le> 0 \<and> nat 0 < length (shard_matrix nonunit_param) \<and>
   shard_matrix nonunit_param ! nat 0 ! nat 0 = 2 \<and>
   lookup_id_in_group nonunit_param 0 0 = Inr True \<and>
   has_table_shard nonunit_param 0 0 0 = Inr True \<and>
   shard_gpus_loop (shard_matrix nonunit_param) 0 0 [] = Inr [1] \<and>
   get_table_shard_id nonunit_param 0 0 =
     Inl (CheckFailed ''get_table_shard_id does not find shard id'') \<and>
   get_table_shard_id nonunit_param 1 0 = Inr (0, 1) \<and>
   get_table_shard_id (nonunit_param\<lparr>shard_matrix := [[0], [1]]\<rparr>) 1 0 = Inr (0, 1)"
proof -
  have rows: "table_in_rows (shard_matrix nonunit_param) 0"
    by (simp add: table_in_rows_def nonunit_param_def)
  have len: "length (shard_matrix nonunit_param) < 2 ^ 31" by (simp add: nonunit_param_def)
  have g0: "(0::int) \<le> 0" and g1: "nat 0 < length (shard_matrix nonunit_param)"
    by (simp_all add: nonunit_param_def)
  have two: "shard_matrix nonunit_param ! nat 0 ! nat 0 = 2" by (simp add: nonunit_param_def)
  then have e0: "shard_matrix nonunit_param ! nat 0 ! nat 0 \<noteq> 0"
    and e1: "shard_matrix nonunit_param ! nat 0 ! nat 0 \<noteq> 1" by simp_all
  note d = shard_queries_disagree [OF rows len g0 g1 e0 e1]
  have grp: "lookup_id_in_group nonunit_param 0 0 = Inr True"
    by (simp add: lookup_id_in_group_def nonunit_param_def)
  have lk: "(0::int) \<le> 0 \<and> nat 0 < length (lookup_params nonunit_param) \<and>
            table_id (lookup_params nonunit_param ! nat 0) = 0"
    by (simp add: nonunit_param_def nonunit_lookups_def)
  from d lk grp have has: "has_table_shard nonunit_param 0 0 0 = Inr True" by blast
  have dev: "shard_devices (shard_matrix nonunit_param) 0 = [1]"
    by (simp add: shard_devices_def nonunit_param_def upt_conv_Cons)
  from d dev have loop: "shard_gpus_loop (shard_matrix nonunit_param) 0 0 [] = Inr [1]" by simp
  from d have fails: "get_table_shard_id nonunit_param 0 0 =
     Inl (CheckFailed ''get_table_shard_id does not find shard id'')" by blast
  have upd: "(shard_matrix nonunit_param)[nat 0 := (shard_matrix nonunit_param ! nat 0)[nat 0 := 0]] =
             [[0], [1]]" by (simp add: nonunit_param_def)
  from d have "get_table_shard_id nonunit_param 1 0 =
     get_table_shard_id (nonunit_param\<lparr>shard_matrix :=
       (shard_matrix nonunit_param)[nat 0 := (shard_matrix nonunit_param ! nat 0)[nat 0 := 0]]\<rparr>) 1 0"
    by blast
  then have same: "get_table_shard_id nonunit_param 1 0 =
     get_table_shard_id (nonunit_param\<lparr>shard_matrix := [[0], [1]]\<rparr>) 1 0"
    by (simp only: upd)
  have other: "get_table_shard_id nonunit_param 1 0 = Inr (0, 1)"
    by (simp add: get_table_shard_id_def nonunit_param_def to_int_def)
  from rows len g1 two grp has loop fails other same show ?thesis by simp
qed

section \<open>Unique table ids of a lookup group\<close>

text \<open>
  Claim C7. \<open>get_unique_table_ids\<close> returns the per-lookup mapping
  \<open>lookup_id_to_table_ids\<close> when \<open>num_table\<close> equals \<open>num_lookup\<close> and
  \<open>sorted_unique_table_ids\<close> otherwise. For attributes built by \<open>WgradAttr_init\<close>, in the
  first case the returned mapping has no repeated table id and holds the same set of table
  ids as the deduplicated list, so the shortcut returns the unique table ids.
\<close>

theorem get_unique_table_ids_shortcut:
  assumes "WgradAttr_init p grouped_id = Inr a"
  shows "(wgrad_num_table a = wgrad_num_lookup a \<longrightarrow>
            get_unique_table_ids a = lookup_id_to_table_ids a \<and>
            distinct (get_unique_table_ids a) \<and>
            set (get_unique_table_ids a) = set (sorted_unique_table_ids a)) \<and>
         (wgrad_num_table a \<noteq> wgrad_num_lookup a \<longrightarrow>
            get_unique_table_ids a = sorted_unique_table_ids a)"
  using WgradAttr_init_shortcut(1,2) [OF assms]
  by (simp add: get_unique_table_ids_def)

text \<open>
  The statement at the dense group of the scenario (two lookups on two tables) and at the
  group of two lookups on one table.
\<close>

theorem get_unique_table_ids_shortcut_witness:
  "WgradAttr_init scenario_param 1 = Inr scenario_dense_attr \<and>
   wgrad_num_table scenario_dense_attr = wgrad_num_lookup scenario_dense_attr \<and>
   get_unique_table_ids scenario_dense_attr = [0, 1] \<and>
   sorted_unique_table_ids scenario_dense_attr = [0, 1] \<and>
   WgradAttr_init nonunit_param 0 = Inr nonunit_attr \<and>
   wgrad_num_table nonunit_attr \<noteq> wgrad_num_lookup nonunit_attr \<and>
   get_unique_table_ids nonunit_attr = [0]"
proof -
  have i1: "WgradAttr_init scenario_param 1 = Inr scenario_dense_attr"
    by (simp add: WgradAttr_init_def Let_def scenario_param_def scenario_lookups_def
          scenario_dense_attr_def)
  have i2: "WgradAttr_init nonunit_param 0 = Inr nonunit_attr"
    by (simp add: WgradAttr_init_def Let_def nonunit_param_def nonunit_lookups_def
          nonunit_attr_def)
  have same: "wgrad_num_table scenario_dense_attr = wgrad_num_lookup scenario_dense_attr"
    and differ: "wgrad_num_table nonunit_attr \<noteq> wgrad_num_lookup nonunit_attr"
    by (simp_all add: scenario_dense_attr_def nonunit_attr_def)
  from get_unique_table_ids_shortcut [OF i1] same
  have "get_unique_table_ids scenario_dense_attr = lookup_id_to_table_ids scenario_dense_attr"
    by blast
  then have u1: "get_unique_table_ids scenario_dense_attr = [0, 1]"
    by (simp add: scenario_dense_attr_def)
  from get_unique_table_ids_shortcut [OF i2] differ
  have "get_unique_table_ids nonunit_attr = sorted_unique_table_ids nonunit_attr" by blast
  then have u2: "get_unique_table_ids nonunit_attr = [0]" by (simp add: nonunit_attr_def)
  have s: "sorted_unique_table_ids scenario_dense_attr = [0, 1]"
    by (simp add: scenario_dense_attr_def)
  from i1 i2 same differ u1 u2 s show ?thesis by simp
qed

end
